theory Spec2Isabelle
  imports Complex_Main
begin

section \<open>Calls that may throw\<close>

text \<open>
  A JavaScript call either returns a value or throws. The only exception that the code
  at hand can raise is the TypeError of reading a property of \<^verbatim>\<open>undefined\<close>. A function
  that acts on a state gives back the state as it is when the call returns or throws;
  an async function that throws returns a rejected promise.
\<close>

datatype error = TypeError

datatype 'a outcome = Return 'a | Throw error

section \<open>The event stream runtime (utils/event-stream)\<close>

text \<open>
  A stream is a function from a subscriber callback to a disposer. One subscription to
  an operator is a small state machine: it owns the variables of the closure that the
  operator creates for the subscription, it is fed the values of the upstream in the order
  they arrive, and it calls the downstream callback zero or more times for each of them.
  An operator is modelled by the step its closure performs for one upstream value, and
  by the run of these steps over the sequence of upstream values.
\<close>

subsection \<open>skipDuplicates\<close>

text \<open>
  \<^verbatim>\<open>type Maybe<T> = null | { value: T }\<close> is \<open>'a option\<close>. The closure variable is
  \<^verbatim>\<open>prev\<close>, initially \<^verbatim>\<open>null\<close>. For one upstream value \<open>x\<close> the closure runs
  \<^verbatim>\<open>if (!prev || !equals(prev.value, x)) { prev = { value: x }; cb(x); }\<close>.
  The result is the new value of \<^verbatim>\<open>prev\<close> and the values handed to \<^verbatim>\<open>cb\<close>.
\<close>

fun skipDuplicates_step :: "('a \<Rightarrow> 'a \<Rightarrow> bool) \<Rightarrow> 'a option \<Rightarrow> 'a \<Rightarrow> 'a option \<times> 'a list" where
  "skipDuplicates_step equals None x = (Some x, [x])"
| "skipDuplicates_step equals (Some p) x =
     (if equals p x then (Some p, []) else (Some x, [x]))"

text \<open>The closure fed the upstream values \<open>xs\<close>, starting with \<^verbatim>\<open>prev\<close> as given.\<close>

fun skipDuplicates_run :: "('a \<Rightarrow> 'a \<Rightarrow> bool) \<Rightarrow> 'a option \<Rightarrow> 'a list \<Rightarrow> 'a option \<times> 'a list" where
  "skipDuplicates_run equals prev [] = (prev, [])"
| "skipDuplicates_run equals prev (x # xs) =
     (case skipDuplicates_step equals prev x of
        (prev', out) \<Rightarrow>
          (case skipDuplicates_run equals prev' xs of
             (prev'', outs) \<Rightarrow> (prev'', out @ outs)))"

text \<open>A fresh subscription: the values the subscriber receives for the upstream values \<open>xs\<close>.\<close>

definition skipDuplicates :: "('a \<Rightarrow> 'a \<Rightarrow> bool) \<Rightarrow> 'a list \<Rightarrow> 'a list" where
  "skipDuplicates equals xs = snd (skipDuplicates_run equals None xs)"

subsection \<open>map and filter\<close>

text \<open>
  \<^verbatim>\<open>map(transform)(stream)\<close> is \<^verbatim>\<open>(cb) => stream((x) => cb(transform(x)))\<close>, and
  \<^verbatim>\<open>filter(test)(stream)\<close> is \<^verbatim>\<open>(cb) => stream((x) => { if (test(x)) cb(x); })\<close>. The
  operators keep no variables. The functions below are the callbacks that they hand to the
  upstream, for a \<^verbatim>\<open>transform\<close>, a \<^verbatim>\<open>test\<close> and a downstream callback \<open>cb\<close> that act on
  a state and may throw: what is done for one upstream value \<open>x\<close>.
\<close>

definition stream_map ::
  "('a \<Rightarrow> 's \<Rightarrow> 'b outcome \<times> 's) \<Rightarrow> ('b \<Rightarrow> 's \<Rightarrow> unit outcome \<times> 's) \<Rightarrow>
     'a \<Rightarrow> 's \<Rightarrow> unit outcome \<times> 's" where
  "stream_map transform cb x s =
     (case transform x s of
        (Throw e, s1) \<Rightarrow> (Throw e, s1)
      | (Return y, s1) \<Rightarrow> cb y s1)"

definition stream_filter ::
  "('a \<Rightarrow> 's \<Rightarrow> bool outcome \<times> 's) \<Rightarrow> ('a \<Rightarrow> 's \<Rightarrow> unit outcome \<times> 's) \<Rightarrow>
     'a \<Rightarrow> 's \<Rightarrow> unit outcome \<times> 's" where
  "stream_filter test cb x s =
     (case test x s of
        (Throw e, s1) \<Rightarrow> (Throw e, s1)
      | (Return True, s1) \<Rightarrow> cb x s1
      | (Return False, s1) \<Rightarrow> (Return (), s1))"

subsection \<open>debouncedBuffer\<close>

text \<open>
  Modelled from the spec: \<^verbatim>\<open>debouncedBuffer\<close> is imported by workspace.ts from
  utils/event-stream, but the event-stream source at hand has only \<^verbatim>\<open>debounceTime\<close>.
  The spec (4.1) describes it: like debounce, it delivers after \<open>ms\<close> have elapsed with no
  new value, each new value restarting the timer, but it delivers the entire ordered
  sequence of values accumulated during the quiet period. Upstream values carry the time
  (in ms) at which they arrive, in non-decreasing order. A value that arrives when the
  timer of the previous one has run out (\<open>lastT + ms \<le> t\<close>) finds the buffer delivered
  and starts a new one. The result lists the deliveries, the last one made when the
  timer runs out after the last value.
\<close>

fun debouncedBuffer_run :: "nat \<Rightarrow> 'a list \<Rightarrow> nat \<Rightarrow> (nat \<times> 'a) list \<Rightarrow> 'a list list" where
  "debouncedBuffer_run ms buf lastT [] = (if buf = [] then [] else [buf])"
| "debouncedBuffer_run ms buf lastT ((t, x) # evs) =
     (if buf \<noteq> [] \<and> lastT + ms \<le> t
      then buf # debouncedBuffer_run ms [x] t evs
      else debouncedBuffer_run ms (buf @ [x]) t evs)"

definition debouncedBuffer :: "nat \<Rightarrow> (nat \<times> 'a) list \<Rightarrow> 'a list list" where
  "debouncedBuffer ms evs = debouncedBuffer_run ms [] 0 evs"

text \<open>
  The values \<open>evs\<close> fall into one debounce window: each arrives less than \<open>ms\<close> after the
  one before it.
\<close>

fun one_window :: "nat \<Rightarrow> (nat \<times> 'a) list \<Rightarrow> bool" where
  "one_window ms [] = True"
| "one_window ms [e] = True"
| "one_window ms (e1 # e2 # evs) =
     (fst e1 \<le> fst e2 \<and> fst e2 < fst e1 + ms \<and> one_window ms (e2 # evs))"

section \<open>Editor, connection and protocol data\<close>

text \<open>
  Editors and connections are objects that the workspace holds by reference; the model
  names them by their identity. What the workspace reads from them and calls on them is
  kept in stores and in a trace, below.
\<close>

type_synonym Editor = nat
type_synonym LspConnection = nat

text \<open>CodeMirror's \<^verbatim>\<open>Position\<close> (\<^verbatim>\<open>{line, ch}\<close>) and \<^verbatim>\<open>Token\<close>; a token's type may be null.\<close>

record Position =
  line :: nat
  ch :: nat

record Token =
  token_start :: nat
  token_end :: nat
  token_string :: string
  token_type :: "string option"

text \<open>
  CodeMirror's change object: the replaced range, the inserted text as a list of lines,
  the removed text, and the origin, which may be undefined.
\<close>

record EditorChange =
  change_from :: Position
  change_to :: Position
  change_text :: "string list"
  change_removed :: "string list"
  change_origin :: "string option"

text \<open>The arguments of one \<^verbatim>\<open>"changes"\<close> event, as \<^verbatim>\<open>fromEditorEvent\<close> tuples them.\<close>

type_synonym ChangesEvent = "Editor \<times> EditorChange list"

text \<open>
  What the workspace reads from an editor: its text, its cursor, the token at a position,
  the text between two positions, and \<^verbatim>\<open>editor.state.completionActive\<close> of the show-hint addon (set while a completion
  popup is shown).
\<close>

record EditorState =
  getValue :: string
  getCursor :: Position
  getTokenAt :: "Position \<Rightarrow> Token"
  getRange :: "Position \<Rightarrow> Position \<Rightarrow> string"
  completionActive :: bool

text \<open>The read-only fields of an \<^verbatim>\<open>LspConnection\<close> that the workspace consults.\<close>

record ConnectionState =
  syncsIncrementally :: bool
  completionTriggers :: "string list"
  signatureHelpTriggers :: "string list"
  signatureHelpRetriggers :: "string list"

record LanguageAssociation =
  languageId :: string
  languageServerIds :: "string list"

text \<open>LSP positions, content changes and text edits, as far as the workspace passes them on.\<close>

record LspPosition =
  lsp_line :: nat
  lsp_character :: nat

datatype TextDocumentContentChangeEvent =
    RangeChange LspPosition LspPosition nat string
  | WholeText string

record TextEdit =
  edit_start :: LspPosition
  edit_end :: LspPosition
  newText :: string

text \<open>
  The context of a completion request: its trigger kind, and for the kind ``trigger
  character'' the value passed as \<^verbatim>\<open>triggerCharacter\<close>, which would be \<open>None\<close> for
  \<^verbatim>\<open>undefined\<close>.
\<close>

datatype CompletionContext = Invoked | TriggerCharacter "string option"

datatype TextDocumentSaveReason = Manual | AfterDelay | FocusOut

text \<open>Completion items, as far as the popup uses them, and the word range.\<close>

record CompletionItem =
  label :: string
  filterText :: "string option"
  kind :: "nat option"
  detail :: "string option"

text \<open>
  An entry of the list handed to the popup: \<^verbatim>\<open>text\<close> and \<^verbatim>\<open>displayText\<close> are the item's
  label, \<^verbatim>\<open>render\<close> and \<^verbatim>\<open>data\<close> are made from the item.
\<close>

record Hint =
  hint_text :: string
  displayText :: string
  hint_item :: CompletionItem

record Range =
  range_from :: Position
  range_to :: Position

text \<open>
  The \<^verbatim>\<open>version\<close> entries are JavaScript numbers. \<^verbatim>\<open>++this.documentVersions[uri]\<close> on a
  missing entry increments \<^verbatim>\<open>undefined\<close>, which gives (and stores) NaN.
\<close>

datatype jsnumber = Num nat | NaN

fun increment :: "jsnumber option \<Rightarrow> jsnumber" where
  "increment (Some (Num n)) = Num (n + 1)"
| "increment (Some NaN) = NaN"
| "increment None = NaN"

text \<open>
  A disposer is a closure; it is named by what calling it does: \<^verbatim>\<open>target.off(type, cb)\<close>
  for a stream made by \<^verbatim>\<open>fromEditorEvent\<close> or a handler added by \<^verbatim>\<open>onEditorEvent\<close>,
  \<^verbatim>\<open>target.removeEventListener(type, cb)\<close> for \<^verbatim>\<open>fromDomEvent\<close> on the editor's wrapper
  element, \<^verbatim>\<open>editor.removeKeyMap(keyMap)\<close> for the key map.
\<close>

datatype Disposer =
    Off Editor string
  | RemoveEventListener Editor string
  | RemoveKeyMap Editor

text \<open>
  The calls that the workspace makes on its collaborators, in program order: the
  notifications and requests on a connection, the capability renderers of
  \<^verbatim>\<open>./capabilities\<close> (of which only \<^verbatim>\<open>hideCompletions\<close> is among the sources; the
  others are recorded as calls with their argument, which is \<open>None\<close> when the caller
  passes \<^verbatim>\<open>undefined\<close>), the registration and removal of listeners, and the set-up of a
  connection.
\<close>

datatype effect =
    TextDocumentOpened LspConnection string string string jsnumber
  | TextDocumentChanged LspConnection string jsnumber "TextDocumentContentChangeEvent list"
  | TextDocumentClosed LspConnection string
  | TextDocumentWillSave LspConnection string TextDocumentSaveReason
  | GetEditsBeforeSave LspConnection string TextDocumentSaveReason
  | TextDocumentSaved LspConnection string string
  | GetCompletion LspConnection string LspPosition CompletionContext
  | GetSignatureHelp LspConnection string LspPosition "string option"
  | CompletionClose Editor
  | ShowHint Editor Position Position "Hint list"
  | RemoveSignatureHelp "Editor option"
  | RemoveDiagnostics "Editor option"
  | RemoveHoverInfo "Editor option"
  | RemoveHighlights "Editor option"
  | ApplyEdits Editor "TextEdit list" string
  | Delay rat
  | On Editor string
  | AddEventListener Editor string
  | AddKeyMap Editor
  | Dispose Disposer
  | GetConnectionString string
  | NewWebSocket string
  | NewWorker string
  | CreateLspConnection LspConnection
  | OnClose LspConnection string
  | Listen LspConnection
  | Initialize LspConnection string bool
  | Initialized LspConnection
  | OnDiagnostics LspConnection

section \<open>The workspace (workspace.ts)\<close>

text \<open>\<^verbatim>\<open>const CHANGES_FRAME = 50\<close>: the changes stream emits at most once per 50ms.\<close>

definition CHANGES_FRAME :: nat where
  "CHANGES_FRAME = 50"

text \<open>
  The private fields of the class \<^verbatim>\<open>Workspace\<close>. The tables are objects without
  prototype used as dictionaries, and a WeakMap keyed by editor.
\<close>

record Workspace =
  editors :: "string \<rightharpoonup> Editor"
  connections :: "string \<rightharpoonup> LspConnection"
  documentVersions :: "string \<rightharpoonup> jsnumber"
  subscriptionDisposers :: "Editor \<rightharpoonup> Disposer list"
  rootUri :: string
  canHandleMarkdown :: bool

text \<open>
  The functions that the host application supplies in \<^verbatim>\<open>WorkspaceOptions\<close>
  (\<^verbatim>\<open>getConnectionString\<close> is the string its promise resolves to), and the helpers of
  utils/conversions and utils/editor, which are not among the sources and are taken as
  parameters: \<^verbatim>\<open>lspPosition\<close>, \<^verbatim>\<open>lspChange\<close>, and the text that \<^verbatim>\<open>applyEdits\<close> leaves in
  the editor.
\<close>

record Env =
  getConnectionString :: "string \<Rightarrow> string"
  getLanguageAssociation :: "string \<Rightarrow> LanguageAssociation option"
  lspPosition :: "Position \<Rightarrow> LspPosition"
  lspChange :: "EditorChange \<Rightarrow> TextDocumentContentChangeEvent"
  applyEdits :: "string \<Rightarrow> TextEdit list \<Rightarrow> string"

text \<open>
  The state that the methods act on: the workspace object, the editors and connections
  it refers to, the number of connection objects created so far (the next one's
  identity), and the trace of calls made.
\<close>

record World =
  this :: Workspace
  cm :: "Editor \<Rightarrow> EditorState"
  lsp :: "LspConnection \<Rightarrow> ConnectionState"
  created :: nat
  trace :: "effect list"

definition emit :: "effect \<Rightarrow> World \<Rightarrow> World" where
  "emit e w = w\<lparr>trace := trace w @ [e]\<rparr>"

subsection \<open>Constructor and document URIs\<close>

text \<open>
  \<^verbatim>\<open>this.rootUri = options.rootUri + (!options.rootUri.endsWith("/") ? "/" : "")\<close>;
  the tables start empty, and \<^verbatim>\<open>canHandleMarkdown\<close> says whether the options have a
  \<^verbatim>\<open>renderMarkdown\<close> function.
\<close>

definition endsWith :: "string \<Rightarrow> string \<Rightarrow> bool" where
  "endsWith s t \<longleftrightarrow> length t \<le> length s \<and> drop (length s - length t) s = t"

definition Workspace_constructor :: "string \<Rightarrow> bool \<Rightarrow> Workspace" where
  "Workspace_constructor options_rootUri hasRenderMarkdown =
     \<lparr> editors = Map.empty,
       connections = Map.empty,
       documentVersions = Map.empty,
       subscriptionDisposers = Map.empty,
       rootUri = options_rootUri @ (if \<not> endsWith options_rootUri ''/'' then ''/'' else []),
       canHandleMarkdown = hasRenderMarkdown \<rparr>"

text \<open>\<^verbatim>\<open>return this.rootUri + path.replace(/^\/+/, "")\<close>\<close>

definition getDocumentUri :: "Workspace \<Rightarrow> string \<Rightarrow> string" where
  "getDocumentUri ws path = rootUri ws @ dropWhile (\<lambda>c. c = CHR ''/'') path"

subsection \<open>Capability renderers that clear transient UI\<close>

text \<open>
  \<^verbatim>\<open>hideCompletions\<close> (capabilities/completion):
  \<^verbatim>\<open>if (editor.state.completionActive) editor.state.completionActive.close()\<close>.
  The addon's \<^verbatim>\<open>close()\<close> removes the popup and clears \<^verbatim>\<open>completionActive\<close>. The
  parameter is typed \<^verbatim>\<open>Editor\<close>; the one caller that can pass \<^verbatim>\<open>undefined\<close> is
  \<^verbatim>\<open>removeEventHandlers\<close>, where reading \<^verbatim>\<open>.state\<close> of it is written out as the TypeError
  that it is.
\<close>

definition hideCompletions :: "Editor \<Rightarrow> World \<Rightarrow> World" where
  "hideCompletions editor w =
     (if completionActive (cm w editor)
      then emit (CompletionClose editor)
             (w\<lparr>cm := (cm w)(editor := (cm w editor)\<lparr>completionActive := False\<rparr>)\<rparr>)
      else w)"

text \<open>
  Modelled from the spec: \<^verbatim>\<open>removeSignatureHelp\<close>, \<^verbatim>\<open>removeDiagnostics\<close>,
  \<^verbatim>\<open>removeHoverInfo\<close> and \<^verbatim>\<open>removeHighlights\<close> are imported from \<^verbatim>\<open>./capabilities\<close>,
  which is not among the sources. The spec (sections 1 and 2) treats the capability
  renderers as external collaborators that the core calls to clear transient UI state, so
  a call is recorded in the trace with its argument and nothing else is said about it.
\<close>

definition removeSignatureHelp :: "Editor option \<Rightarrow> World \<Rightarrow> World" where
  "removeSignatureHelp editor w = emit (RemoveSignatureHelp editor) w"

definition removeDiagnostics :: "Editor option \<Rightarrow> World \<Rightarrow> World" where
  "removeDiagnostics editor w = emit (RemoveDiagnostics editor) w"

definition removeHoverInfo :: "Editor option \<Rightarrow> World \<Rightarrow> World" where
  "removeHoverInfo editor w = emit (RemoveHoverInfo editor) w"

definition removeHighlights :: "Editor option \<Rightarrow> World \<Rightarrow> World" where
  "removeHighlights editor w = emit (RemoveHighlights editor) w"

subsection \<open>The changes stream of addEventHandlers\<close>

text \<open>
  The callback of \<^verbatim>\<open>map\<close>, called with one delivery \<open>buffered\<close> of \<^verbatim>\<open>debouncedBuffer\<close>.
  \<^verbatim>\<open>buffered[0][0]\<close> throws on an empty delivery. It sends one
  \<^verbatim>\<open>textDocumentChanged\<close> with \<^verbatim>\<open>version: ++this.documentVersions[uri]\<close> and with
  \<^verbatim>\<open>buffered.flatMap(([_, cs]) => cs.map(lspChange))\<close> or \<^verbatim>\<open>[{ text: cm.getValue() }]\<close>,
  and returns the editor with the last change of the last event (\<^verbatim>\<open>undefined\<close>, here
  \<open>None\<close>, when that event has no change).
\<close>

definition changes_map ::
  "Env \<Rightarrow> string \<Rightarrow> LspConnection \<Rightarrow> ChangesEvent list \<Rightarrow> World \<Rightarrow>
     (Editor \<times> EditorChange option) outcome \<times> World" where
  "changes_map env uri conn buffered w =
     (case buffered of
        [] \<Rightarrow> (Throw TypeError, w)
      | (editor, _) # _ \<Rightarrow>
          (let version = increment (documentVersions (this w) uri);
               w1 = w\<lparr>this := (this w)\<lparr>documentVersions :=
                       (documentVersions (this w))(uri \<mapsto> version)\<rparr>\<rparr>;
               contentChanges =
                 (if syncsIncrementally (lsp w1 conn)
                  then concat (map (\<lambda>(_, cs). map (lspChange env) cs) buffered)
                  else [WholeText (getValue (cm w1 editor))]);
               w2 = emit (TextDocumentChanged conn uri version contentChanges) w1;
               lastChanges = snd (last buffered)
           in (Return (editor, if lastChanges = [] then None else Some (last lastChanges)), w2)))"

text \<open>
  The test of \<^verbatim>\<open>filter\<close> (``Text removed''):
  \<^verbatim>\<open>change.origin === "+delete" || change.text.every((s) => s.length === 0)\<close>.
\<close>

definition text_removed :: "EditorChange \<Rightarrow> bool" where
  "text_removed change \<longleftrightarrow>
     change_origin change = Some ''+delete'' \<or> list_all (\<lambda>s. length s = 0) (change_text change)"

definition changes_filter :: "Editor \<times> EditorChange option \<Rightarrow> World \<Rightarrow> bool outcome \<times> World" where
  "changes_filter x w =
     (case x of
        (editor, None) \<Rightarrow> (Throw TypeError, w)
      | (editor, Some change) \<Rightarrow>
          (if text_removed change
           then (Return False, removeSignatureHelp (Some editor) (hideCompletions editor w))
           else (Return True, w)))"

text \<open>
  \<^verbatim>\<open>/\b(?:variable|property|type)\b/.test(token.type)\<close>. The three words begin and end
  with word characters, so \<^verbatim>\<open>\b\<close> before the word asks for the start of the string or a
  character outside \<^verbatim>\<open>[A-Za-z0-9_]\<close>, and after it for the end of the string or such a
  character. \<open>regex_from prev s\<close> looks for a match starting somewhere in \<open>s\<close>, the
  character before \<open>s\<close> being \<open>prev\<close>.
\<close>

definition isWordChar :: "char \<Rightarrow> bool" where
  "isWordChar c \<longleftrightarrow>
     c \<in> set ''abcdefghijklmnopqrstuvwxyzABCDEFGHIJKLMNOPQRSTUVWXYZ0123456789_''"

definition word_here :: "char option \<Rightarrow> string \<Rightarrow> string \<Rightarrow> bool" where
  "word_here prev word s \<longleftrightarrow>
     (case prev of None \<Rightarrow> True | Some c \<Rightarrow> \<not> isWordChar c) \<and>
     take (length word) s = word \<and>
     (case drop (length word) s of [] \<Rightarrow> True | c # _ \<Rightarrow> \<not> isWordChar c)"

fun regex_from :: "char option \<Rightarrow> string \<Rightarrow> bool" where
  "regex_from prev [] = False"
| "regex_from prev (c # s) =
     (word_here prev ''variable'' (c # s) \<or> word_here prev ''property'' (c # s) \<or>
      word_here prev ''type'' (c # s) \<or> regex_from (Some c) s)"

text \<open>\<^verbatim>\<open>token.type && /\b(?:variable|property|type)\b/.test(token.type)\<close>\<close>

definition identifier_token :: "Token \<Rightarrow> bool" where
  "identifier_token token \<longleftrightarrow>
     (case token_type token of None \<Rightarrow> False | Some t \<Rightarrow> t \<noteq> [] \<and> regex_from None t)"

text \<open>\<^verbatim>\<open>change.text[change.text.length - 1]\<close>, \<^verbatim>\<open>undefined\<close> for an empty array.\<close>

definition triggerCharacter :: "EditorChange \<Rightarrow> string option" where
  "triggerCharacter change =
     (if change_text change = [] then None else Some (last (change_text change)))"

text \<open>\<^verbatim>\<open>xs.includes(x)\<close>, where \<open>x\<close> may be \<^verbatim>\<open>undefined\<close> and \<open>xs\<close> holds strings.\<close>

definition array_includes :: "string list \<Rightarrow> string option \<Rightarrow> bool" where
  "array_includes xs x \<longleftrightarrow> (case x of None \<Rightarrow> False | Some s \<Rightarrow> s \<in> set xs)"

text \<open>
  The subscriber of the changes stream. It reads the change only after the test of the
  token, where \<^verbatim>\<open>change.text\<close> throws if the change is \<^verbatim>\<open>undefined\<close> (which the filter
  before it does not let through). The \<^verbatim>\<open>then\<close> callbacks of the requests run when the
  server answers and are not part of it.
\<close>

definition changes_subscriber ::
  "Env \<Rightarrow> string \<Rightarrow> LspConnection \<Rightarrow> Editor \<times> EditorChange option \<Rightarrow> World \<Rightarrow>
     unit outcome \<times> World" where
  "changes_subscriber env uri conn x w =
     (case x of (editor, change) \<Rightarrow>
        (let pos = getCursor (cm w editor);
             token = getTokenAt (cm w editor) pos
         in if identifier_token token
            then (Return (),
                  emit (GetCompletion conn uri (lspPosition env pos) Invoked)
                    (removeSignatureHelp (Some editor) w))
            else
              (case change of
                 None \<Rightarrow> (Throw TypeError, w)
               | Some c \<Rightarrow>
                   (if array_includes (completionTriggers (lsp w conn)) (triggerCharacter c)
                    then (Return (),
                          emit (GetCompletion conn uri (lspPosition env pos)
                                  (TriggerCharacter (triggerCharacter c)))
                            (removeSignatureHelp (Some editor) w))
                    else if array_includes (signatureHelpTriggers (lsp w conn)) (triggerCharacter c) \<or>
                            array_includes (signatureHelpRetriggers (lsp w conn)) (triggerCharacter c)
                    then (Return (),
                          emit (GetSignatureHelp conn uri (lspPosition env pos)
                                  (triggerCharacter c))
                            (removeSignatureHelp (Some editor) (hideCompletions editor w)))
                    else (Return (),
                          removeSignatureHelp (Some editor) (hideCompletions editor w))))))"

text \<open>
  \<^verbatim>\<open>changeStream\<close> is the stream of the editor's \<^verbatim>\<open>"changes"\<close> events piped through
  \<^verbatim>\<open>debouncedBuffer(CHANGES_FRAME)\<close>, \<^verbatim>\<open>map\<close> and \<^verbatim>\<open>filter\<close>, and it is subscribed to
  with the subscriber above: what one delivery \<open>buffered\<close> of \<^verbatim>\<open>debouncedBuffer\<close> sets
  off, synchronously.
\<close>

definition changeStream ::
  "Env \<Rightarrow> string \<Rightarrow> LspConnection \<Rightarrow> ChangesEvent list \<Rightarrow> World \<Rightarrow> unit outcome \<times> World" where
  "changeStream env uri conn =
     stream_map (changes_map env uri conn)
       (stream_filter changes_filter (changes_subscriber env uri conn))"

subsection \<open>Registering and removing the handlers of an editor\<close>

text \<open>
  \<^verbatim>\<open>addEventHandlers\<close> subscribes to the three streams, adds three editor event
  handlers and a key map, pushing a disposer for each, and stores the disposers for the
  editor with \<^verbatim>\<open>this.subscriptionDisposers.set(editor, disposers)\<close>. \<open>registrations\<close>
  lists the listeners and the key map in the order they are added, \<open>disposers_of\<close> the
  disposers in the order they are pushed. (\<^verbatim>\<open>onEditorEvent\<close> of \<^verbatim>\<open>./events\<close> is not among
  the sources; it is taken to add the handler with \<^verbatim>\<open>editor.on\<close> and to return the
  disposer that removes it, as \<^verbatim>\<open>fromEditorEvent\<close> does.)
\<close>

definition registrations :: "Editor \<Rightarrow> effect list" where
  "registrations editor =
     [On editor ''changes'', On editor ''cursorActivity'',
      AddEventListener editor ''mouseover'',
      On editor ''cmw:contextMenuOpened'', On editor ''cmw:contextMenuClosed'',
      On editor ''contextmenu'', AddKeyMap editor]"

definition disposers_of :: "Editor \<Rightarrow> Disposer list" where
  "disposers_of editor =
     [Off editor ''changes'', Off editor ''cursorActivity'',
      RemoveEventListener editor ''mouseover'',
      Off editor ''cmw:contextMenuOpened'', Off editor ''cmw:contextMenuClosed'',
      Off editor ''contextmenu'', RemoveKeyMap editor]"

definition addEventHandlers :: "string \<Rightarrow> Editor \<Rightarrow> LspConnection \<Rightarrow> World \<Rightarrow> World" where
  "addEventHandlers uri editor conn w =
     (let disposers = disposers_of editor;
          w1 = w\<lparr>trace := trace w @ registrations editor\<rparr>
      in w1\<lparr>this := (this w1)\<lparr>subscriptionDisposers :=
               (subscriptionDisposers (this w1))(editor \<mapsto> disposers)\<rparr>\<rparr>)"

text \<open>\<^verbatim>\<open>for (const dispose of disposers) dispose()\<close>\<close>

fun dispose_each :: "Disposer list \<Rightarrow> World \<Rightarrow> World" where
  "dispose_each [] w = w"
| "dispose_each (d # ds) w = dispose_each ds (emit (Dispose d) w)"

text \<open>
  \<^verbatim>\<open>removeEventHandlers(editor)\<close>, where \<open>editor\<close> is \<open>None\<close> when the caller read a
  missing table entry. \<^verbatim>\<open>WeakMap.get(undefined)\<close> is \<^verbatim>\<open>undefined\<close>, so the disposers are
  skipped; the renderers are then called with \<^verbatim>\<open>undefined\<close>, and \<^verbatim>\<open>hideCompletions\<close>
  throws on \<^verbatim>\<open>editor.state\<close> (if one of the three renderers before it has not thrown
  already, which gives the same outcome).
\<close>

definition removeEventHandlers :: "Editor option \<Rightarrow> World \<Rightarrow> unit outcome \<times> World" where
  "removeEventHandlers editor w =
     (let w1 = (case editor of
                  None \<Rightarrow> w
                | Some e \<Rightarrow>
                    (case subscriptionDisposers (this w) e of
                       None \<Rightarrow> w
                     | Some disposers \<Rightarrow>
                         (let w' = dispose_each disposers w
                          in w'\<lparr>this := (this w')\<lparr>subscriptionDisposers :=
                                  (subscriptionDisposers (this w'))(e := None)\<rparr>\<rparr>)));
          w2 = removeHighlights editor (removeHoverInfo editor (removeDiagnostics editor w1))
      in case editor of
           None \<Rightarrow> (Throw TypeError, w2)
         | Some e \<Rightarrow> (Return (), removeSignatureHelp editor (hideCompletions e w2)))"

subsection \<open>Connecting\<close>

text \<open>
  \<^verbatim>\<open>connect\<close> is an async function with three \<^verbatim>\<open>await\<close>s. Between the start of a call and
  each resumption other callbacks may run, so the call is modelled by the synchronous
  stretches between its suspensions. A suspended call is a task; \<open>Resolved r\<close> is a call
  that has returned \<open>r\<close>. The awaited promises are taken to resolve.
\<close>

datatype connect_task =
    AwaitConnectionString string
  | AwaitMessageConnection string
  | AwaitInitialize string LspConnection
  | Resolved "LspConnection option"

text \<open>
  From the call to the first \<^verbatim>\<open>await\<close>:
  \<^verbatim>\<open>const existing = this.connections[serverId]; if (existing) return existing;\<close>
  and the call of \<^verbatim>\<open>this.getConnectionString(serverId)\<close>.
\<close>

definition connect_start :: "string \<Rightarrow> World \<Rightarrow> connect_task \<times> World" where
  "connect_start serverId w =
     (case connections (this w) serverId of
        Some existing \<Rightarrow> (Resolved (Some existing), w)
      | None \<Rightarrow> (AwaitConnectionString serverId, emit (GetConnectionString serverId) w))"

text \<open>\<^verbatim>\<open>/^wss?:\/\//.test(connectionString)\<close>\<close>

definition isWebSocket :: "string \<Rightarrow> bool" where
  "isWebSocket s \<longleftrightarrow> take 5 s = ''ws://'' \<or> take 6 s = ''wss://''"

text \<open>
  The stretch that a resumed task runs. After the connection string: return on an empty
  string, else create the WebSocket or Worker and its message connection. After the
  message connection: \<^verbatim>\<open>createLspConnection\<close> gives a new connection object, which is
  stored in the table; the close handler is registered, \<^verbatim>\<open>listen\<close> and \<^verbatim>\<open>initialize\<close> are
  called. After the handshake: \<^verbatim>\<open>initialized\<close>, the diagnostics handler, and the return
  of the connection.
\<close>

fun connect_resume :: "Env \<Rightarrow> connect_task \<Rightarrow> World \<Rightarrow> connect_task \<times> World" where
  "connect_resume env (AwaitConnectionString serverId) w =
     (let connectionString = getConnectionString env serverId
      in if connectionString = [] then (Resolved None, w)
         else (AwaitMessageConnection serverId,
               emit (if isWebSocket connectionString then NewWebSocket connectionString
                     else NewWorker connectionString) w))"
| "connect_resume env (AwaitMessageConnection serverId) w =
     (let conn = created w;
          w1 = emit (CreateLspConnection conn) (w\<lparr>created := created w + 1\<rparr>);
          w2 = w1\<lparr>this := (this w1)\<lparr>connections := (connections (this w1))(serverId \<mapsto> conn)\<rparr>\<rparr>;
          w3 = emit (Initialize conn (rootUri (this w2)) (canHandleMarkdown (this w2)))
                 (emit (Listen conn) (emit (OnClose conn serverId) w2))
      in (AwaitInitialize serverId conn, w3))"
| "connect_resume env (AwaitInitialize serverId conn) w =
     (Resolved (Some conn), emit (OnDiagnostics conn) (emit (Initialized conn) w))"
| "connect_resume env (Resolved r) w = (Resolved r, w)"

text \<open>The close handler registered by \<^verbatim>\<open>conn.onClose\<close>: \<^verbatim>\<open>delete this.connections[serverId]\<close>.\<close>

definition onClose_handler :: "string \<Rightarrow> World \<Rightarrow> World" where
  "onClose_handler serverId w =
     w\<lparr>this := (this w)\<lparr>connections := (connections (this w))(serverId := None)\<rparr>\<rparr>"

text \<open>A call of \<^verbatim>\<open>connect\<close> that runs to its end with nothing else in between.\<close>

definition connect :: "Env \<Rightarrow> string \<Rightarrow> World \<Rightarrow> LspConnection option \<times> World" where
  "connect env serverId w =
     (case connect_start serverId w of (t0, w0) \<Rightarrow>
      case connect_resume env t0 w0 of (t1, w1) \<Rightarrow>
      case connect_resume env t1 w1 of (t2, w2) \<Rightarrow>
      case connect_resume env t2 w2 of (t3, w3) \<Rightarrow>
        (case t3 of Resolved r \<Rightarrow> r | _ \<Rightarrow> None, w3))"

text \<open>
  Calls of \<^verbatim>\<open>connect\<close> that overlap: a schedule says, step by step, which call is
  started (with its server ID) or which suspended call is resumed. Calls are numbered
  in the order they are started.
\<close>

datatype schedule_step = Call string | Resume nat

fun run_schedule :: "Env \<Rightarrow> schedule_step list \<Rightarrow> connect_task list \<times> World \<Rightarrow> connect_task list \<times> World" where
  "run_schedule env [] tw = tw"
| "run_schedule env (Call serverId # steps) (tasks, w) =
     (case connect_start serverId w of
        (t, w') \<Rightarrow> run_schedule env steps (tasks @ [t], w'))"
| "run_schedule env (Resume i # steps) (tasks, w) =
     (if i < length tasks
      then (case connect_resume env (tasks ! i) w of
              (t, w') \<Rightarrow> run_schedule env steps (tasks[i := t], w'))
      else run_schedule env steps (tasks, w))"

subsection \<open>Opening, closing and saving a document\<close>

text \<open>\<^verbatim>\<open>const serverId = assoc.languageServerIds[0]; if (!serverId) return;\<close>\<close>

definition firstServerId :: "LanguageAssociation \<Rightarrow> string option" where
  "firstServerId assoc =
     (case languageServerIds assoc of
        [] \<Rightarrow> None
      | serverId # _ \<Rightarrow> if serverId = [] then None else Some serverId)"

text \<open>
  The part of \<^verbatim>\<open>openTextDocument\<close> after \<^verbatim>\<open>await this.connect(serverId)\<close> has given a
  connection: the table entries, \<^verbatim>\<open>textDocumentOpened\<close> with
  \<^verbatim>\<open>version: ++this.documentVersions[uri]\<close>, and the event handlers.
\<close>

definition openTextDocument_connected ::
  "string \<Rightarrow> LanguageAssociation \<Rightarrow> Editor \<Rightarrow> LspConnection \<Rightarrow> World \<Rightarrow> World" where
  "openTextDocument_connected uri assoc editor conn w =
     (let w1 = w\<lparr>this := (this w)\<lparr>editors := (editors (this w))(uri \<mapsto> editor),
                                   documentVersions := (documentVersions (this w))(uri \<mapsto> Num 0)\<rparr>\<rparr>;
          version = increment (documentVersions (this w1) uri);
          w2 = w1\<lparr>this := (this w1)\<lparr>documentVersions :=
                  (documentVersions (this w1))(uri \<mapsto> version)\<rparr>\<rparr>;
          w3 = emit (TextDocumentOpened conn uri (languageId assoc) (getValue (cm w2 editor)) version) w2
      in addEventHandlers uri editor conn w3)"

definition openTextDocument :: "Env \<Rightarrow> string \<Rightarrow> Editor \<Rightarrow> World \<Rightarrow> World" where
  "openTextDocument env path editor w =
     (let uri = getDocumentUri (this w) path
      in case getLanguageAssociation env uri of
           None \<Rightarrow> w
         | Some assoc \<Rightarrow>
             (case firstServerId assoc of
                None \<Rightarrow> w
              | Some serverId \<Rightarrow>
                  (case connect env serverId w of
                     (None, w1) \<Rightarrow> w1
                   | (Some conn, w1) \<Rightarrow> openTextDocument_connected uri assoc editor conn w1)))"

text \<open>
  \<^verbatim>\<open>closeTextDocument\<close> has no \<^verbatim>\<open>await\<close>. It returns early without association, server
  ID or connection, but does not look whether \<^verbatim>\<open>this.editors[uri]\<close> exists.
\<close>

definition closeTextDocument :: "Env \<Rightarrow> string \<Rightarrow> World \<Rightarrow> unit outcome \<times> World" where
  "closeTextDocument env path w =
     (let uri = getDocumentUri (this w) path
      in case getLanguageAssociation env uri of
           None \<Rightarrow> (Return (), w)
         | Some assoc \<Rightarrow>
             (case firstServerId assoc of
                None \<Rightarrow> (Return (), w)
              | Some serverId \<Rightarrow>
                  (case connections (this w) serverId of
                     None \<Rightarrow> (Return (), w)
                   | Some conn \<Rightarrow>
                       (let editor = editors (this w) uri;
                            w1 = w\<lparr>this := (this w)\<lparr>editors := (editors (this w))(uri := None),
                                    documentVersions := (documentVersions (this w))(uri := None)\<rparr>\<rparr>
                        in case removeEventHandlers editor w1 of
                             (Throw e, w2) \<Rightarrow> (Throw e, w2)
                           | (Return _, w2) \<Rightarrow>
                               (Return (), emit (TextDocumentClosed conn uri) w2)))))"

text \<open>
  \<^verbatim>\<open>saveTextDocument\<close> up to \<^verbatim>\<open>await conn.getEditsBeforeSave(...)\<close>: the early returns
  (here also for a missing editor), \<^verbatim>\<open>textDocumentWillSave\<close> and the request, both with
  \<^verbatim>\<open>reason: TextDocumentSaveReason.Manual\<close>. The result names what the rest needs.
\<close>

definition saveTextDocument_start ::
  "Env \<Rightarrow> string \<Rightarrow> World \<Rightarrow> (string \<times> Editor \<times> LspConnection) option \<times> World" where
  "saveTextDocument_start env path w =
     (let uri = getDocumentUri (this w) path
      in case getLanguageAssociation env uri of
           None \<Rightarrow> (None, w)
         | Some assoc \<Rightarrow>
             (case firstServerId assoc of
                None \<Rightarrow> (None, w)
              | Some serverId \<Rightarrow>
                  (case connections (this w) serverId of
                     None \<Rightarrow> (None, w)
                   | Some conn \<Rightarrow>
                       (case editors (this w) uri of
                          None \<Rightarrow> (None, w)
                        | Some editor \<Rightarrow>
                            (Some (uri, editor, conn),
                             emit (GetEditsBeforeSave conn uri Manual)
                               (emit (TextDocumentWillSave conn uri Manual) w))))))"

text \<open>
  When the request has answered \<open>edits\<close> (\<open>None\<close> for \<^verbatim>\<open>null\<close>):
  \<^verbatim>\<open>if (edits) { applyEdits(editor, edits, "beforeSave"); await delay(CHANGES_FRAME * 1.5); }\<close>.
  An array is truthy also when it is empty. \<^verbatim>\<open>delay\<close> (utils/promise, not among the
  sources) is taken to resolve after the given number of ms; \<open>Delay\<close> in the trace is
  that suspension.
\<close>

definition saveTextDocument_edits ::
  "Env \<Rightarrow> Editor \<Rightarrow> TextEdit list option \<Rightarrow> World \<Rightarrow> World" where
  "saveTextDocument_edits env editor edits w =
     (case edits of
        None \<Rightarrow> w
      | Some es \<Rightarrow>
          emit (Delay (of_nat CHANGES_FRAME * (3 / 2)))
            (emit (ApplyEdits editor es ''beforeSave'')
               (w\<lparr>cm := (cm w)(editor := (cm w editor)
                      \<lparr>getValue := applyEdits env (getValue (cm w editor)) es\<rparr>)\<rparr>)))"

text \<open>\<^verbatim>\<open>conn.textDocumentSaved({ textDocument: { uri }, text: editor.getValue() })\<close>\<close>

definition saveTextDocument_saved :: "string \<Rightarrow> Editor \<Rightarrow> LspConnection \<Rightarrow> World \<Rightarrow> World" where
  "saveTextDocument_saved uri editor conn w =
     emit (TextDocumentSaved conn uri (getValue (cm w editor))) w"

text \<open>
  A call of \<^verbatim>\<open>saveTextDocument\<close> to which the server answers \<open>edits\<close>, with nothing else
  running while it is suspended.
\<close>

definition saveTextDocument :: "Env \<Rightarrow> string \<Rightarrow> TextEdit list option \<Rightarrow> World \<Rightarrow> World" where
  "saveTextDocument env path edits w =
     (case saveTextDocument_start env path w of
        (None, w1) \<Rightarrow> w1
      | (Some (uri, editor, conn), w1) \<Rightarrow>
          saveTextDocument_saved uri editor conn (saveTextDocument_edits env editor edits w1))"

section \<open>The completion popup (capabilities/completion)\<close>

text \<open>
  The table of \<^verbatim>\<open>lcs\<close>: \<^verbatim>\<open>L\<close> holds two rows of \<open>n + 1\<close> numbers, row
  \<^verbatim>\<open>b = i & 1\<close> is written while row \<^verbatim>\<open>b ^ 1\<close> is read. \<open>lcs_cell\<close> is the value assigned to
  \<^verbatim>\<open>L[b][j]\<close>, \<open>lcs_row\<close> the loop over \<open>j\<close> for one \<open>i\<close>, and \<open>lcs\<close> the loop over \<open>i\<close>
  and the result \<^verbatim>\<open>L[b][n]\<close>, \<open>b\<close> being that of the last round, \<open>i = m\<close>.
\<close>

definition lcs_cell :: "'a list \<Rightarrow> 'a list \<Rightarrow> nat list list \<Rightarrow> nat \<Rightarrow> nat \<Rightarrow> nat" where
  "lcs_cell x y L i j =
     (let b = i mod 2
      in if i = 0 \<or> j = 0 then 0
         else if x ! (i - 1) = y ! (j - 1) then L ! (1 - b) ! (j - 1) + 1
         else max (L ! (1 - b) ! j) (L ! b ! (j - 1)))"

definition lcs_row :: "'a list \<Rightarrow> 'a list \<Rightarrow> nat \<Rightarrow> nat list list \<Rightarrow> nat list list" where
  "lcs_row x y i L =
     fold (\<lambda>j L. L[i mod 2 := (L ! (i mod 2))[j := lcs_cell x y L i j]]) [0..<Suc (length y)] L"

definition lcs :: "'a list \<Rightarrow> 'a list \<Rightarrow> nat" where
  "lcs x y =
     (let m = length x;
          n = length y;
          zs = replicate (Suc n) 0;
          L = fold (lcs_row x y) [0..<Suc m] [zs, zs]
      in L ! (m mod 2) ! n)"

text \<open>\<^verbatim>\<open>item.includes(typed)\<close>: \<open>typed\<close> occurs in \<open>item\<close> as a contiguous piece.\<close>

fun string_includes :: "'a list \<Rightarrow> 'a list \<Rightarrow> bool" where
  "string_includes [] typed = (typed = [])"
| "string_includes (c # item) typed =
     (take (length typed) (c # item) = typed \<or> string_includes item typed)"

text \<open>
  \<^verbatim>\<open>lcsScore\<close>. The scores are JavaScript numbers; here they are exact fractions, which
  order \<open>typed.length + 1 / item.length\<close> as the doubles do unless the strings are so long
  that two such doubles round to the same one.
\<close>

definition lcsScore :: "string \<Rightarrow> string \<Rightarrow> rat" where
  "lcsScore item typed =
     (if length item = 0 \<or> length typed = 0 then 0
      else if string_includes item typed then of_nat (length typed) + 1 / of_nat (length item)
      else if length item < length typed then of_nat (lcs typed item)
      else of_nat (lcs item typed))"

text \<open>\<^verbatim>\<open>item.filterText || item.label\<close>: an absent or empty filter text gives the label.\<close>

definition filterText_or_label :: "CompletionItem \<Rightarrow> string" where
  "filterText_or_label item =
     (case filterText item of
        None \<Rightarrow> label item
      | Some f \<Rightarrow> if f = [] then label item else f)"

text \<open>
  \<^verbatim>\<open>filteredItems\<close>. The \<^verbatim>\<open>reduce\<close> fills a dictionary of scores keyed by
  \<^verbatim>\<open>item.label\<close>, a later item overwriting the entry of an earlier one with the same
  label. The copy of the items is sorted with the comparator
  \<^verbatim>\<open>scores[b.label] - scores[a.label]\<close>, that is by falling score; the sort is stable
  (ECMAScript 2019), as \<open>sort_key\<close> is. Every item of the list finds an entry under
  its label, so \<open>the\<close> is only applied to entries that are there. (The dictionary is an
  ordinary object, so the label \<^verbatim>\<open>__proto__\<close>, whose entry cannot be set to a number, is
  outside this model.)
\<close>

definition scores :: "CompletionItem list \<Rightarrow> string \<Rightarrow> (string \<rightharpoonup> rat)" where
  "scores items typed =
     fold (\<lambda>item o'. o'(label item \<mapsto> lcsScore (filterText_or_label item) typed)) items Map.empty"

definition filteredItems :: "CompletionItem list \<Rightarrow> string \<Rightarrow> nat \<Rightarrow> CompletionItem list" where
  "filteredItems items typed maxItems =
     take maxItems (sort_key (\<lambda>item. - the (scores items typed (label item))) items)"

definition hint_of :: "CompletionItem \<Rightarrow> Hint" where
  "hint_of item = \<lparr> hint_text = label item, displayText = label item, hint_item = item \<rparr>"

text \<open>
  \<^verbatim>\<open>showInvokedCompletions\<close>: nothing for an empty list; otherwise the typed text is read
  from the word range, the items are filtered with \<open>maxItems = 30\<close>, and
  \<^verbatim>\<open>editor.showHint\<close> is called with a \<^verbatim>\<open>hint\<close> function that gives the word range and the
  list made from the filtered items. The addon marks the completion as active.
\<close>

definition showInvokedCompletions :: "Editor \<Rightarrow> CompletionItem list \<Rightarrow> Range \<Rightarrow> World \<Rightarrow> World" where
  "showInvokedCompletions editor items wordRange w =
     (if length items = 0 then w
      else
        (let typed = getRange (cm w editor) (range_from wordRange) (range_to wordRange);
             filtered = filteredItems items typed 30
         in emit (ShowHint editor (range_from wordRange) (range_to wordRange) (map hint_of filtered))
              (w\<lparr>cm := (cm w)(editor := (cm w editor)\<lparr>completionActive := True\<rparr>)\<rparr>)))"

section \<open>Observing a run\<close>

text \<open>The calls made on the way from the state \<open>w\<close> to the later state \<open>w'\<close>.\<close>

definition sent_since :: "World \<Rightarrow> World \<Rightarrow> effect list" where
  "sent_since w w' = drop (length (trace w)) (trace w')"

fun is_didOpen :: "effect \<Rightarrow> bool" where
  "is_didOpen (TextDocumentOpened conn uri lang txt version) = True"
| "is_didOpen e = False"

fun is_didChange :: "effect \<Rightarrow> bool" where
  "is_didChange (TextDocumentChanged conn uri version contentChanges) = True"
| "is_didChange e = False"

text \<open>The completion and signature help requests.\<close>

fun is_request :: "effect \<Rightarrow> bool" where
  "is_request (GetCompletion conn uri pos context) = True"
| "is_request (GetSignatureHelp conn uri pos c) = True"
| "is_request e = False"

text \<open>The transports created: \<^verbatim>\<open>new WebSocket(...)\<close> and \<^verbatim>\<open>new Worker(...)\<close>.\<close>

fun is_transport :: "effect \<Rightarrow> bool" where
  "is_transport (NewWebSocket s) = True"
| "is_transport (NewWorker s) = True"
| "is_transport e = False"

text \<open>The number of separators at the end of a URI.\<close>

definition trailing_separators :: "string \<Rightarrow> nat" where
  "trailing_separators s = length (takeWhile (\<lambda>c. c = CHR ''/'') (rev s))"

text \<open>
  What \<^verbatim>\<open>hideCompletions\<close> adds to the trace in the state \<open>w\<close>: the popup is closed if
  one is shown.
\<close>

definition closing :: "World \<Rightarrow> Editor \<Rightarrow> effect list" where
  "closing w editor = (if completionActive (cm w editor) then [CompletionClose editor] else [])"

section \<open>An example configuration\<close>

text \<open>
  A host application that maps \<^verbatim>\<open>.ts\<close> files to the server \<^verbatim>\<open>ts\<close>, reached through a
  WebSocket proxy; stand-ins for the conversions and for the effect of applying edits
  (the new texts are put in front); editors that show \<^verbatim>\<open>a.\<close> with the cursor behind
  the dot, on a token without type; connections to a server that synchronises
  incrementally and declares trigger characters.
\<close>

definition example_env :: Env where
  "example_env =
     \<lparr> getConnectionString = (\<lambda>serverId. if serverId = ''ts'' then ''ws://localhost:9990'' else []),
       getLanguageAssociation =
         (\<lambda>uri. if endsWith uri ''.ts''
                then Some \<lparr> languageId = ''typescript'', languageServerIds = [''ts''] \<rparr>
                else None),
       lspPosition = (\<lambda>p. \<lparr> lsp_line = line p, lsp_character = ch p \<rparr>),
       lspChange =
         (\<lambda>c. RangeChange \<lparr> lsp_line = line (change_from c), lsp_character = ch (change_from c) \<rparr>
                \<lparr> lsp_line = line (change_to c), lsp_character = ch (change_to c) \<rparr>
                (length (concat (change_removed c))) (concat (change_text c))),
       applyEdits = (\<lambda>txt edits. concat (map newText edits) @ txt) \<rparr>"

definition example_world :: World where
  "example_world =
     \<lparr> this = Workspace_constructor ''file:///workspace'' False,
       cm = (\<lambda>editor.
               \<lparr> getValue = ''a.'',
                 getCursor = \<lparr> line = 0, ch = 2 \<rparr>,
                 getTokenAt = (\<lambda>pos. \<lparr> token_start = 1, token_end = 2,
                                       token_string = ''.'', token_type = None \<rparr>),
                 getRange = (\<lambda>p q. ''a.''),
                 completionActive = True \<rparr>),
       lsp = (\<lambda>conn.
               \<lparr> syncsIncrementally = True,
                 completionTriggers = [''.''],
                 signatureHelpTriggers = [''(''],
                 signatureHelpRetriggers = ['',''] \<rparr>),
       created = 0,
       trace = [] \<rparr>"

text \<open>The example after \<^verbatim>\<open>a.ts\<close> has been opened in editor 0.\<close>

definition opened_world :: World where
  "opened_world = openTextDocument example_env ''a.ts'' 0 example_world"

text \<open>Changes: typing a dot, pasting \<^verbatim>\<open>a.\<close>, and deleting a character.\<close>

definition typed_dot :: EditorChange where
  "typed_dot =
     \<lparr> change_from = \<lparr> line = 0, ch = 1 \<rparr>, change_to = \<lparr> line = 0, ch = 1 \<rparr>,
       change_text = [''.''], change_removed = [[]], change_origin = Some ''+input'' \<rparr>"

definition pasted_a_dot :: EditorChange where
  "pasted_a_dot =
     \<lparr> change_from = \<lparr> line = 0, ch = 0 \<rparr>, change_to = \<lparr> line = 0, ch = 0 \<rparr>,
       change_text = [''a.''], change_removed = [[]], change_origin = Some ''paste'' \<rparr>"

definition deleted_char :: EditorChange where
  "deleted_char =
     \<lparr> change_from = \<lparr> line = 0, ch = 1 \<rparr>, change_to = \<lparr> line = 0, ch = 2 \<rparr>,
       change_text = [[]], change_removed = [''.''], change_origin = Some ''+delete'' \<rparr>"

text \<open>
  The opened editor when \<^verbatim>\<open>ab\<close> has been typed instead: the cursor is behind the
  identifier, which is the word range of an invoked completion.
\<close>

definition completing_world :: World where
  "completing_world =
     opened_world\<lparr>cm := (cm opened_world)
       (0 := \<lparr> getValue = ''ab'',
               getCursor = \<lparr> line = 0, ch = 2 \<rparr>,
               getTokenAt = (\<lambda>pos. \<lparr> token_start = 0, token_end = 2,
                                     token_string = ''ab'', token_type = Some ''variable'' \<rparr>),
               getRange = (\<lambda>p q. ''ab''),
               completionActive = False \<rparr>)\<rparr>"

definition ab_range :: Range where
  "ab_range = \<lparr> range_from = \<lparr> line = 0, ch = 0 \<rparr>, range_to = \<lparr> line = 0, ch = 2 \<rparr> \<rparr>"

text \<open>
  Completion items: two with the label \<^verbatim>\<open>f\<close> and different filter texts, and one with
  the label \<^verbatim>\<open>g\<close>.
\<close>

definition item_f_ab :: CompletionItem where
  "item_f_ab = \<lparr> label = ''f'', filterText = Some ''ab'', kind = None, detail = None \<rparr>"

definition item_g_a :: CompletionItem where
  "item_g_a = \<lparr> label = ''g'', filterText = Some ''a'', kind = None, detail = None \<rparr>"

definition item_f_zz :: CompletionItem where
  "item_f_zz = \<lparr> label = ''f'', filterText = Some ''zz'', kind = None, detail = None \<rparr>"

section \<open>Properties of the event stream operators\<close>

lemma skipDuplicates_run_append:
  "skipDuplicates_run equals prev (xs @ ys) =
     (case skipDuplicates_run equals prev xs of
        (prev', out) \<Rightarrow>
          (case skipDuplicates_run equals prev' ys of
             (prev'', outs) \<Rightarrow> (prev'', out @ outs)))"
  by (induction xs arbitrary: prev) (auto split: prod.splits)

text \<open>The closure variable always holds the value emitted last, if there is one.\<close>

lemma skipDuplicates_run_prev:
  "skipDuplicates_run equals prev xs = (prev', out) \<Longrightarrow>
     prev' = (if out = [] then prev else Some (last out))"
proof (induction xs arbitrary: prev prev' out)
  case Nil
  then show ?case by simp
next
  case (Cons x xs)
  obtain p1 o1 where s: "skipDuplicates_step equals prev x = (p1, o1)"
    by (cases "skipDuplicates_step equals prev x")
  obtain p2 o2 where r: "skipDuplicates_run equals p1 xs = (p2, o2)"
    by (cases "skipDuplicates_run equals p1 xs")
  from Cons.prems s r have eq: "prev' = p2" "out = o1 @ o2" by simp_all
  from Cons.IH [OF r] have p2: "p2 = (if o2 = [] then p1 else Some (last o2))" .
  from s have p1: "p1 = (if o1 = [] then prev else Some (last o1))"
    by (cases prev) (auto split: if_splits)
  show ?case using eq p1 p2 by auto
qed

lemma skipDuplicates_run_nonempty:
  "skipDuplicates_run equals None (x # xs) = (prev', out) \<Longrightarrow> out \<noteq> [] \<and> hd out = x"
  by (auto split: prod.splits)

text \<open>
  C9. A subscription to \<open>skipDuplicates equals\<close> always emits the first value it receives;
  a later value \<open>x\<close>, received after the values \<open>y # ys\<close>, is emitted if and only if
  \<open>equals prev x\<close> does not hold, where \<open>prev\<close> is the value emitted last before
  \<open>x\<close> (the last element of what was emitted for \<open>y # ys\<close>, which need not be the value
  received last); the values emitted earlier are not changed by it.
\<close>

theorem skipDuplicates_emits:
  "skipDuplicates equals (y # ys) \<noteq> [] \<and>
   hd (skipDuplicates equals (y # ys)) = y \<and>
   skipDuplicates equals ((y # ys) @ [x]) =
     skipDuplicates equals (y # ys) @
       (if equals (last (skipDuplicates equals (y # ys))) x then [] else [x])"
proof -
  obtain p out where r: "skipDuplicates_run equals None (y # ys) = (p, out)"
    by (cases "skipDuplicates_run equals None (y # ys)")
  from skipDuplicates_run_nonempty [OF r] have ne: "out \<noteq> []" and hd: "hd out = y"
    by simp_all
  from skipDuplicates_run_prev [OF r] ne have p: "p = Some (last out)" by simp
  have "skipDuplicates_run equals None ((y # ys) @ [x]) =
          (case skipDuplicates_run equals p [x] of (p'', outs) \<Rightarrow> (p'', out @ outs))"
    unfolding skipDuplicates_run_append r by simp
  then have "snd (skipDuplicates_run equals None ((y # ys) @ [x])) =
          out @ (if equals (last out) x then [] else [x])"
    using p by simp
  then show ?thesis
    using r ne hd by (simp add: skipDuplicates_def)
qed

text \<open>
  With \<open>equals a b \<longleftrightarrow> b \<le> a + 1\<close> and the upstream values 0, 1, 2: 1 is suppressed
  (it equals the emitted 0), and 2 is compared with the emitted 0, not the received 1,
  so it is emitted.
\<close>

theorem skipDuplicates_emits_witness:
  "skipDuplicates (\<lambda>a b. b \<le> a + 1) ((0::nat) # [1]) = [0] \<and>
   skipDuplicates (\<lambda>a b. b \<le> a + 1) (((0::nat) # [1]) @ [2]) = [0, 2]"
proof -
  have a: "skipDuplicates (\<lambda>a b. b \<le> a + 1) ((0::nat) # [1]) = [0]"
    by (simp add: skipDuplicates_def)
  show ?thesis
    using skipDuplicates_emits [of "\<lambda>a b. b \<le> a + 1" "0::nat" "[1]" 2] a by simp
qed

text \<open>
  Values that fall into one window are delivered together, once.
\<close>

lemma debouncedBuffer_run_one_window:
  assumes "one_window ms evs"
    and "buf = [] \<or> evs = [] \<or> fst (hd evs) < lastT + ms"
    and "buf @ map snd evs \<noteq> []"
  shows "debouncedBuffer_run ms buf lastT evs = [buf @ map snd evs]"
  using assms
proof (induction evs arbitrary: buf lastT)
  case Nil
  then show ?case by simp
next
  case (Cons e evs)
  obtain t x where e: "e = (t, x)" by (cases e)
  have ow: "one_window ms evs"
    using Cons.prems(1) by (cases evs) simp_all
  have nxt: "buf @ [x] = [] \<or> evs = [] \<or> fst (hd evs) < t + ms"
    using Cons.prems(1) e by (cases evs) simp_all
  have "debouncedBuffer_run ms (buf @ [x]) t evs = [(buf @ [x]) @ map snd evs]"
    by (rule Cons.IH [OF ow nxt]) simp
  moreover have "\<not> (buf \<noteq> [] \<and> lastT + ms \<le> t)"
    using Cons.prems(2) e by auto
  ultimately show ?case
    using e by simp
qed

lemma debouncedBuffer_one_window:
  assumes "evs \<noteq> []" and "one_window ms evs"
  shows "debouncedBuffer ms evs = [map snd evs]"
  unfolding debouncedBuffer_def
  using debouncedBuffer_run_one_window [OF assms(2), of "[]" 0] assms(1) by simp

section \<open>What the methods of the workspace do\<close>

subsection \<open>Traces and renderers\<close>

lemma sent_since_append: "trace w' = trace w @ tr \<Longrightarrow> sent_since w w' = tr"
  by (simp add: sent_since_def)

lemma emit_simps:
  "trace (emit e w) = trace w @ [e]"
  "this (emit e w) = this w"
  "cm (emit e w) = cm w"
  "lsp (emit e w) = lsp w"
  by (simp_all add: emit_def)

lemma hideCompletions_simps:
  "trace (hideCompletions e w) = trace w @ closing w e"
  "this (hideCompletions e w) = this w"
  "lsp (hideCompletions e w) = lsp w"
  "created (hideCompletions e w) = created w"
  "completionActive (cm (hideCompletions e w) e) = False"
  "getValue (cm (hideCompletions e w) e') = getValue (cm w e')"
  "getCursor (cm (hideCompletions e w) e') = getCursor (cm w e')"
  "getTokenAt (cm (hideCompletions e w) e') = getTokenAt (cm w e')"
  by (simp_all add: hideCompletions_def closing_def emit_def)

lemma removeSignatureHelp_simps:
  "trace (removeSignatureHelp e w) = trace w @ [RemoveSignatureHelp e]"
  "this (removeSignatureHelp e w) = this w"
  "cm (removeSignatureHelp e w) = cm w"
  "lsp (removeSignatureHelp e w) = lsp w"
  by (simp_all add: removeSignatureHelp_def emit_def)

lemma endsWith_slash: "endsWith s ''/'' \<longleftrightarrow> s \<noteq> [] \<and> last s = CHR ''/''"
  by (cases s rule: rev_cases) (auto simp: endsWith_def)

subsection \<open>Connecting\<close>

lemma connect_start_frame:
  "connect_start sid w = (t', w') \<Longrightarrow>
     this w' = this w \<and> cm w' = cm w \<and> lsp w' = lsp w"
  by (auto simp: connect_start_def emit_def split: option.splits)

lemma connect_resume_frame:
  "connect_resume env t w = (t', w') \<Longrightarrow>
     rootUri (this w') = rootUri (this w) \<and> cm w' = cm w \<and> lsp w' = lsp w \<and>
     editors (this w') = editors (this w) \<and>
     documentVersions (this w') = documentVersions (this w) \<and>
     subscriptionDisposers (this w') = subscriptionDisposers (this w)"
  by (cases t) (auto simp: emit_def Let_def split: if_splits)

lemma connect_frame:
  assumes "connect env sid w = (r, w')"
  shows "rootUri (this w') = rootUri (this w) \<and> cm w' = cm w \<and> lsp w' = lsp w \<and>
     editors (this w') = editors (this w) \<and>
     documentVersions (this w') = documentVersions (this w) \<and>
     subscriptionDisposers (this w') = subscriptionDisposers (this w)"
proof -
  obtain t0 w0 where s0: "connect_start sid w = (t0, w0)" by (cases "connect_start sid w")
  obtain t1 w1 where s1: "connect_resume env t0 w0 = (t1, w1)" by (cases "connect_resume env t0 w0")
  obtain t2 w2 where s2: "connect_resume env t1 w1 = (t2, w2)" by (cases "connect_resume env t1 w1")
  obtain t3 w3 where s3: "connect_resume env t2 w2 = (t3, w3)" by (cases "connect_resume env t2 w2")
  from assms s0 s1 s2 s3 have "w' = w3" by (simp add: connect_def)
  with connect_start_frame [OF s0] connect_resume_frame [OF s1] connect_resume_frame [OF s2]
    connect_resume_frame [OF s3]
  show ?thesis by simp
qed

text \<open>
  A call of \<^verbatim>\<open>connect\<close> that starts when the table has a connection for the server ID,
  also one that is still in its handshake, returns that connection and creates nothing.
\<close>

lemma connect_start_existing:
  "connections (this w) serverId = Some conn \<Longrightarrow>
     connect_start serverId w = (Resolved (Some conn), w)"
  by (simp add: connect_start_def)

text \<open>
  \<^verbatim>\<open>connect\<close> returns the connection of the table if there is one, and a connection that
  it returns is in the table afterwards.
\<close>

lemma connect_existing:
  "connections (this w) sid = Some conn \<Longrightarrow> connect env sid w = (Some conn, w)"
  by (simp add: connect_def connect_start_def)

lemma connect_stored:
  assumes "connect env sid w = (Some conn, w')"
  shows "connections (this w') sid = Some conn"
proof (cases "connections (this w) sid")
  case (Some c)
  with assms show ?thesis by (simp add: connect_existing)
next
  case None
  with assms show ?thesis
    by (auto simp: connect_def connect_start_def emit_def Let_def split: if_splits)
qed

lemma connect_start_trace:
  "connect_start sid w = (t', w') \<Longrightarrow>
     \<exists>tr. trace w' = trace w @ tr \<and> filter is_didOpen tr = []"
  by (auto simp: connect_start_def emit_def split: option.splits)

lemma connect_resume_trace:
  "connect_resume env t w = (t', w') \<Longrightarrow>
     \<exists>tr. trace w' = trace w @ tr \<and> filter is_didOpen tr = []"
  by (cases t) (auto simp: emit_def Let_def split: if_splits)

lemma connect_trace:
  assumes "connect env sid w = (r, w')"
  shows "\<exists>tr. trace w' = trace w @ tr \<and> filter is_didOpen tr = []"
proof -
  obtain t0 w0 where s0: "connect_start sid w = (t0, w0)" by (cases "connect_start sid w")
  obtain t1 w1 where s1: "connect_resume env t0 w0 = (t1, w1)" by (cases "connect_resume env t0 w0")
  obtain t2 w2 where s2: "connect_resume env t1 w1 = (t2, w2)" by (cases "connect_resume env t1 w1")
  obtain t3 w3 where s3: "connect_resume env t2 w2 = (t3, w3)" by (cases "connect_resume env t2 w2")
  from assms s0 s1 s2 s3 have w': "w' = w3" by (simp add: connect_def)
  from connect_start_trace [OF s0] obtain tr0 where
    a0: "trace w0 = trace w @ tr0" "filter is_didOpen tr0 = []" by blast
  from connect_resume_trace [OF s1] obtain tr1 where
    a1: "trace w1 = trace w0 @ tr1" "filter is_didOpen tr1 = []" by blast
  from connect_resume_trace [OF s2] obtain tr2 where
    a2: "trace w2 = trace w1 @ tr2" "filter is_didOpen tr2 = []" by blast
  from connect_resume_trace [OF s3] obtain tr3 where
    a3: "trace w3 = trace w2 @ tr3" "filter is_didOpen tr3 = []" by blast
  have "trace w' = trace w @ (tr0 @ tr1 @ tr2 @ tr3)"
    using w' a0 a1 a2 a3 by simp
  moreover have "filter is_didOpen (tr0 @ tr1 @ tr2 @ tr3) = []"
    using a0 a1 a2 a3 by simp
  ultimately show ?thesis by blast
qed

subsection \<open>Opening\<close>

lemma openTextDocument_connected_simps:
  "trace (openTextDocument_connected uri assoc editor conn w) =
     trace w @ TextDocumentOpened conn uri (languageId assoc) (getValue (cm w editor)) (Num 1) #
       registrations editor"
  "documentVersions (this (openTextDocument_connected uri assoc editor conn w)) =
     (documentVersions (this w))(uri \<mapsto> Num 1)"
  "editors (this (openTextDocument_connected uri assoc editor conn w)) =
     (editors (this w))(uri \<mapsto> editor)"
  "subscriptionDisposers (this (openTextDocument_connected uri assoc editor conn w)) =
     (subscriptionDisposers (this w))(editor \<mapsto> disposers_of editor)"
  "connections (this (openTextDocument_connected uri assoc editor conn w)) = connections (this w)"
  "rootUri (this (openTextDocument_connected uri assoc editor conn w)) = rootUri (this w)"
  "cm (openTextDocument_connected uri assoc editor conn w) = cm w"
  "lsp (openTextDocument_connected uri assoc editor conn w) = lsp w"
  by (simp_all add: openTextDocument_connected_def addEventHandlers_def emit_def Let_def)

lemma registrations_no_didOpen: "filter is_didOpen (registrations e) = []"
  by (simp add: registrations_def)

text \<open>A successful open: the association, the server ID and the connection are there.\<close>

lemma openTextDocument_success:
  assumes "getLanguageAssociation env (getDocumentUri (this w) path) = Some assoc"
    and "firstServerId assoc = Some serverId"
    and "connect env serverId w = (Some conn, w1)"
  shows "openTextDocument env path editor w =
           openTextDocument_connected (getDocumentUri (this w) path) assoc editor conn w1"
  using assms by (simp add: openTextDocument_def Let_def)

lemma open_sends_version_one:
  assumes "getLanguageAssociation env (getDocumentUri (this w) path) = Some assoc"
    and "firstServerId assoc = Some serverId"
    and "connect env serverId w = (Some conn, w1)"
  shows "filter is_didOpen (sent_since w (openTextDocument env path editor w)) =
           [TextDocumentOpened conn (getDocumentUri (this w) path) (languageId assoc)
              (getValue (cm w editor)) (Num 1)]"
proof -
  from connect_trace [OF assms(3)] obtain tr where
    tr: "trace w1 = trace w @ tr" "filter is_didOpen tr = []" by blast
  from connect_frame [OF assms(3)] have cm: "cm w1 = cm w" by simp
  have "trace (openTextDocument env path editor w) =
          trace w @ (tr @ TextDocumentOpened conn (getDocumentUri (this w) path) (languageId assoc)
              (getValue (cm w editor)) (Num 1) # registrations editor)"
    by (simp add: openTextDocument_success [OF assms] openTextDocument_connected_simps tr cm)
  from sent_since_append [OF this] show ?thesis
    by (simp add: tr registrations_no_didOpen)
qed

lemma openTextDocument_frame:
  "rootUri (this (openTextDocument env path editor w)) = rootUri (this w)"
proof -
  have c: "\<And>sid. rootUri (this (snd (connect env sid w))) = rootUri (this w)"
    using connect_frame [OF prod.collapse [symmetric]] by simp
  show ?thesis
    using c
    by (auto simp: openTextDocument_def Let_def openTextDocument_connected_simps
        split: option.splits prod.splits) (metis snd_conv)+
qed

subsection \<open>Closing\<close>

lemma dispose_each_simps:
  "trace (dispose_each ds w) = trace w @ map Dispose ds"
  "this (dispose_each ds w) = this w"
  "cm (dispose_each ds w) = cm w"
  "lsp (dispose_each ds w) = lsp w"
  by (induction ds arbitrary: w) (simp_all add: emit_def)

text \<open>Removing the handlers of an editor that is there.\<close>

lemma removeEventHandlers_Some:
  "fst (removeEventHandlers (Some e) w) = Return ()"
  "trace (snd (removeEventHandlers (Some e) w)) =
     trace w @ map Dispose (case subscriptionDisposers (this w) e of None \<Rightarrow> [] | Some ds \<Rightarrow> ds) @
       [RemoveDiagnostics (Some e), RemoveHoverInfo (Some e), RemoveHighlights (Some e)] @
       closing w e @ [RemoveSignatureHelp (Some e)]"
  "this (snd (removeEventHandlers (Some e) w)) =
     (this w)\<lparr>subscriptionDisposers := (subscriptionDisposers (this w))(e := None)\<rparr>"
  "completionActive (cm (snd (removeEventHandlers (Some e) w)) e) = False"
  by (auto simp: removeEventHandlers_def removeSignatureHelp_def removeDiagnostics_def
      removeHoverInfo_def removeHighlights_def hideCompletions_def closing_def emit_def Let_def
      dispose_each_simps fun_upd_idem split: option.splits)

lemma removeEventHandlers_None:
  "removeEventHandlers None w =
     (Throw TypeError,
      w\<lparr>trace := trace w @ [RemoveDiagnostics None, RemoveHoverInfo None, RemoveHighlights None]\<rparr>)"
  by (simp add: removeEventHandlers_def removeDiagnostics_def
      removeHoverInfo_def removeHighlights_def emit_def Let_def)

lemma removeEventHandlers_frame:
  assumes "removeEventHandlers ed w = (r, w')"
  shows "getValue (cm w' e) = getValue (cm w e) \<and> lsp w' = lsp w \<and>
         rootUri (this w') = rootUri (this w) \<and> connections (this w') = connections (this w)"
proof (cases ed)
  case None
  with assms show ?thesis by (auto simp: removeEventHandlers_None)
next
  case (Some x)
  with assms have "w' = snd (removeEventHandlers (Some x) w)" by simp
  then show ?thesis
    by (simp add: removeEventHandlers_def removeSignatureHelp_def removeDiagnostics_def
        removeHoverInfo_def removeHighlights_def hideCompletions_def emit_def Let_def
        dispose_each_simps split: option.splits)
qed

lemma closeTextDocument_open_eq:
  assumes "getLanguageAssociation env (getDocumentUri (this w) path) = Some assoc"
    and "firstServerId assoc = Some serverId"
    and "connections (this w) serverId = Some conn"
    and "editors (this w) (getDocumentUri (this w) path) = Some e"
  shows "closeTextDocument env path w =
     (Return (),
      emit (TextDocumentClosed conn (getDocumentUri (this w) path))
        (snd (removeEventHandlers (Some e)
           (w\<lparr>this := (this w)\<lparr>editors := (editors (this w))(getDocumentUri (this w) path := None),
              documentVersions := (documentVersions (this w))(getDocumentUri (this w) path := None)\<rparr>\<rparr>))))"
proof -
  define w1 where "w1 = w\<lparr>this := (this w)\<lparr>editors := (editors (this w))(getDocumentUri (this w) path := None),
              documentVersions := (documentVersions (this w))(getDocumentUri (this w) path := None)\<rparr>\<rparr>"
  obtain w2 where r: "removeEventHandlers (Some e) w1 = (Return (), w2)"
    using removeEventHandlers_Some(1) [of e w1] by (cases "removeEventHandlers (Some e) w1") auto
  have "closeTextDocument env path w =
          (Return (), emit (TextDocumentClosed conn (getDocumentUri (this w) path)) w2)"
    using assms r unfolding w1_def by (simp add: closeTextDocument_def Let_def)
  moreover have "w2 = snd (removeEventHandlers (Some e) w1)"
    using r by simp
  ultimately show ?thesis
    unfolding w1_def by simp
qed

lemma closeTextDocument_open:
  assumes "getLanguageAssociation env (getDocumentUri (this w) path) = Some assoc"
    and "firstServerId assoc = Some serverId"
    and "connections (this w) serverId = Some conn"
    and "editors (this w) (getDocumentUri (this w) path) = Some e"
  shows "fst (closeTextDocument env path w) = Return ()"
    and "trace (snd (closeTextDocument env path w)) =
     trace w @ map Dispose (case subscriptionDisposers (this w) e of None \<Rightarrow> [] | Some ds \<Rightarrow> ds) @
       [RemoveDiagnostics (Some e), RemoveHoverInfo (Some e), RemoveHighlights (Some e)] @
       closing w e @ [RemoveSignatureHelp (Some e), TextDocumentClosed conn (getDocumentUri (this w) path)]"
    and "this (snd (closeTextDocument env path w)) =
     (this w)\<lparr>editors := (editors (this w))(getDocumentUri (this w) path := None),
              documentVersions := (documentVersions (this w))(getDocumentUri (this w) path := None),
              subscriptionDisposers := (subscriptionDisposers (this w))(e := None)\<rparr>"
    and "completionActive (cm (snd (closeTextDocument env path w)) e) = False"
  by (simp_all add: closeTextDocument_open_eq [OF assms] removeEventHandlers_Some emit_def closing_def)

lemma closeTextDocument_closed:
  assumes "getLanguageAssociation env (getDocumentUri (this w) path) = Some assoc"
    and "firstServerId assoc = Some serverId"
    and "connections (this w) serverId = Some conn"
    and "editors (this w) (getDocumentUri (this w) path) = None"
  shows "fst (closeTextDocument env path w) = Throw TypeError"
    and "trace (snd (closeTextDocument env path w)) =
       trace w @ [RemoveDiagnostics None, RemoveHoverInfo None, RemoveHighlights None]"
  using assms
  by (simp_all add: closeTextDocument_def Let_def removeEventHandlers_None)

lemma closeTextDocument_frame:
  assumes "closeTextDocument env path w = (r, w')"
  shows "getValue (cm w' e) = getValue (cm w e) \<and> lsp w' = lsp w \<and>
         rootUri (this w') = rootUri (this w) \<and> connections (this w') = connections (this w)"
proof -
  define w1 where "w1 = w\<lparr>this := (this w)\<lparr>editors := (editors (this w))(getDocumentUri (this w) path := None),
              documentVersions := (documentVersions (this w))(getDocumentUri (this w) path := None)\<rparr>\<rparr>"
  obtain r2 w2 where re: "removeEventHandlers (editors (this w) (getDocumentUri (this w) path)) w1 = (r2, w2)"
    by (cases "removeEventHandlers (editors (this w) (getDocumentUri (this w) path)) w1")
  from removeEventHandlers_frame [OF re, of e] have
    fr: "getValue (cm w2 e) = getValue (cm w e) \<and> lsp w2 = lsp w \<and>
         rootUri (this w2) = rootUri (this w) \<and> connections (this w2) = connections (this w)"
    by (simp add: w1_def)
  from assms re have "w' = w \<or> w' = w2 \<or> (\<exists>ef. w' = emit ef w2)"
    unfolding closeTextDocument_def Let_def w1_def [symmetric]
    by (auto split: option.splits outcome.splits)
  with fr show ?thesis by (auto simp: emit_def)
qed

subsection \<open>Saving\<close>

lemma saveTextDocument_open:
  assumes "getLanguageAssociation env (getDocumentUri (this w) path) = Some assoc"
    and "firstServerId assoc = Some serverId"
    and "connections (this w) serverId = Some conn"
    and "editors (this w) (getDocumentUri (this w) path) = Some editor"
  shows "saveTextDocument env path edits w =
     saveTextDocument_saved (getDocumentUri (this w) path) editor conn
       (saveTextDocument_edits env editor edits
          (emit (GetEditsBeforeSave conn (getDocumentUri (this w) path) Manual)
             (emit (TextDocumentWillSave conn (getDocumentUri (this w) path) Manual) w)))"
  using assms by (simp add: saveTextDocument_def saveTextDocument_start_def Let_def)

lemma saveTextDocument_trace:
  assumes "getLanguageAssociation env (getDocumentUri (this w) path) = Some assoc"
    and "firstServerId assoc = Some serverId"
    and "connections (this w) serverId = Some conn"
    and "editors (this w) (getDocumentUri (this w) path) = Some editor"
  shows "trace (saveTextDocument env path edits w) = trace w @
     [TextDocumentWillSave conn (getDocumentUri (this w) path) Manual,
      GetEditsBeforeSave conn (getDocumentUri (this w) path) Manual] @
     (case edits of
        None \<Rightarrow> [TextDocumentSaved conn (getDocumentUri (this w) path) (getValue (cm w editor))]
      | Some es \<Rightarrow>
          [ApplyEdits editor es ''beforeSave'',
           Delay (3 / 2 * of_nat CHANGES_FRAME),
           TextDocumentSaved conn (getDocumentUri (this w) path)
             (applyEdits env (getValue (cm w editor)) es)])"
  unfolding saveTextDocument_open [OF assms]
  by (cases edits) (simp_all add: saveTextDocument_saved_def saveTextDocument_edits_def emit_def)

text \<open>A save leaves the root URI as it is.\<close>

lemma saveTextDocument_frame:
  "rootUri (this (saveTextDocument env path edits w)) = rootUri (this w)"
  by (cases edits)
    (simp_all add: saveTextDocument_def saveTextDocument_start_def saveTextDocument_saved_def
      saveTextDocument_edits_def emit_def Let_def split: option.splits)

subsection \<open>The changes stream\<close>

lemma flatMap_lspChange:
  "concat (map (\<lambda>(_, cs). map f cs) buffered) = map f (concat (map snd buffered))"
  by (induction buffered) auto

text \<open>The map step on a delivery that is not empty.\<close>

lemma changes_map_nonempty:
  assumes "buffered \<noteq> []"
  shows "changes_map env uri conn buffered w =
    (Return (fst (hd buffered),
             if snd (last buffered) = [] then None else Some (last (snd (last buffered)))),
     w\<lparr>this := (this w)\<lparr>documentVersions :=
            (documentVersions (this w))(uri \<mapsto> increment (documentVersions (this w) uri))\<rparr>,
       trace := trace w @
         [TextDocumentChanged conn uri (increment (documentVersions (this w) uri))
            (if syncsIncrementally (lsp w conn)
             then map (lspChange env) (concat (map snd buffered))
             else [WholeText (getValue (cm w (fst (hd buffered))))])]\<rparr>)"
  using assms
  by (cases buffered) (auto simp: changes_map_def Let_def emit_def flatMap_lspChange)

lemma changes_map_frame:
  assumes "buffered \<noteq> []"
  shows "cm (snd (changes_map env uri conn buffered w)) = cm w"
    and "lsp (snd (changes_map env uri conn buffered w)) = lsp w"
    and "rootUri (this (snd (changes_map env uri conn buffered w))) = rootUri (this w)"
  by (simp_all add: changes_map_nonempty [OF assms])

lemma changes_filter_removed:
  assumes "text_removed change"
  shows "changes_filter (editor, Some change) w =
           (Return False, removeSignatureHelp (Some editor) (hideCompletions editor w))"
  using assms by (simp add: changes_filter_def)

lemma changes_filter_kept:
  assumes "\<not> text_removed change"
  shows "changes_filter (editor, Some change) w = (Return True, w)"
  using assms by (simp add: changes_filter_def)

lemma changes_filter_trace:
  "changes_filter x w = (r, w') \<Longrightarrow>
     \<exists>tr. trace w' = trace w @ tr \<and> filter is_didChange tr = [] \<and> this w' = this w"
  by (cases x)
    (auto simp: changes_filter_def removeSignatureHelp_simps hideCompletions_simps closing_def
      split: option.splits if_splits)

lemma changes_subscriber_Some:
  "fst (changes_subscriber env uri conn (editor, Some change) w) = Return ()"
  "trace (snd (changes_subscriber env uri conn (editor, Some change) w)) = trace w @
     (let pos = getCursor (cm w editor);
          token = getTokenAt (cm w editor) pos
      in if identifier_token token
         then [RemoveSignatureHelp (Some editor), GetCompletion conn uri (lspPosition env pos) Invoked]
         else if array_includes (completionTriggers (lsp w conn)) (triggerCharacter change)
         then [RemoveSignatureHelp (Some editor),
               GetCompletion conn uri (lspPosition env pos)
                 (TriggerCharacter (triggerCharacter change))]
         else if array_includes (signatureHelpTriggers (lsp w conn)) (triggerCharacter change) \<or>
                 array_includes (signatureHelpRetriggers (lsp w conn)) (triggerCharacter change)
         then closing w editor @
              [RemoveSignatureHelp (Some editor),
               GetSignatureHelp conn uri (lspPosition env pos) (triggerCharacter change)]
         else closing w editor @ [RemoveSignatureHelp (Some editor)])"
  by (simp_all add: changes_subscriber_def Let_def emit_simps removeSignatureHelp_simps
      hideCompletions_simps)

lemma changes_subscriber_frame:
  "\<exists>tr. trace (snd (changes_subscriber env uri conn x w)) = trace w @ tr \<and>
        filter is_didChange tr = []"
  "this (snd (changes_subscriber env uri conn x w)) = this w"
  by (cases x; simp add: changes_subscriber_def Let_def emit_simps removeSignatureHelp_simps
      hideCompletions_simps closing_def split: option.splits)+

lemma not_removed_text: "\<not> text_removed change \<Longrightarrow> change_text change \<noteq> []"
  by (auto simp: text_removed_def)

lemma changeStream_removed:
  assumes "buffered \<noteq> []" and "snd (last buffered) \<noteq> []"
    and "text_removed (last (snd (last buffered)))"
  shows "changeStream env uri conn buffered w =
           (Return (),
            removeSignatureHelp (Some (fst (hd buffered)))
              (hideCompletions (fst (hd buffered)) (snd (changes_map env uri conn buffered w))))"
  using assms
  by (simp add: changeStream_def stream_map_def stream_filter_def changes_map_nonempty
      changes_filter_removed)

lemma changeStream_kept:
  assumes "buffered \<noteq> []" and "snd (last buffered) \<noteq> []"
    and "\<not> text_removed (last (snd (last buffered)))"
  shows "changeStream env uri conn buffered w =
           changes_subscriber env uri conn (fst (hd buffered), Some (last (snd (last buffered))))
             (snd (changes_map env uri conn buffered w))"
  using assms
  by (simp add: changeStream_def stream_map_def stream_filter_def changes_map_nonempty
      changes_filter_kept)

text \<open>What a delivery does after the map step adds no \<^verbatim>\<open>didChange\<close> and leaves the tables.\<close>

lemma changeStream_after_map:
  assumes "buffered \<noteq> []"
  shows "\<exists>tr. trace (snd (changeStream env uri conn buffered w)) =
                trace (snd (changes_map env uri conn buffered w)) @ tr \<and>
              filter is_didChange tr = []"
    and "this (snd (changeStream env uri conn buffered w)) =
           this (snd (changes_map env uri conn buffered w))"
proof -
  define w1 where "w1 = snd (changes_map env uri conn buffered w)"
  define ed where "ed = fst (hd buffered)"
  define ch where "ch = (if snd (last buffered) = [] then None else Some (last (snd (last buffered))))"
  have m: "changes_map env uri conn buffered w = (Return (ed, ch), w1)"
    unfolding w1_def ed_def ch_def by (simp add: changes_map_nonempty [OF assms])
  obtain r w2 where f: "changes_filter (ed, ch) w1 = (r, w2)"
    by (cases "changes_filter (ed, ch) w1")
  from changes_filter_trace [OF f] obtain tr where
    tr: "trace w2 = trace w1 @ tr" "filter is_didChange tr = []" "this w2 = this w1" by blast
  have cases: "snd (changeStream env uri conn buffered w) = w2 \<or>
      snd (changeStream env uri conn buffered w) =
        snd (changes_subscriber env uri conn (ed, ch) w2)"
    using m f
    by (auto simp: changeStream_def stream_map_def stream_filter_def
        split: outcome.splits bool.splits)
  show "\<exists>tr. trace (snd (changeStream env uri conn buffered w)) =
                trace (snd (changes_map env uri conn buffered w)) @ tr \<and>
              filter is_didChange tr = []"
  proof -
    from cases show ?thesis
    proof
      assume "snd (changeStream env uri conn buffered w) = w2"
      with tr show ?thesis unfolding w1_def by auto
    next
      assume c: "snd (changeStream env uri conn buffered w) =
                 snd (changes_subscriber env uri conn (ed, ch) w2)"
      from changes_subscriber_frame(1) [of env uri conn "(ed, ch)" w2] obtain tr' where
        tr': "trace (snd (changes_subscriber env uri conn (ed, ch) w2)) = trace w2 @ tr'"
          "filter is_didChange tr' = []" by blast
      have "trace (snd (changeStream env uri conn buffered w)) = trace w1 @ (tr @ tr')"
        using c tr tr' by simp
      moreover have "filter is_didChange (tr @ tr') = []"
        using tr tr' by simp
      ultimately show ?thesis unfolding w1_def by blast
    qed
  qed
  show "this (snd (changeStream env uri conn buffered w)) =
           this (snd (changes_map env uri conn buffered w))"
    using cases tr(3) changes_subscriber_frame(2) unfolding w1_def by auto
qed

lemma changeStream_frame:
  "rootUri (this (snd (changeStream env uri conn buffered w))) = rootUri (this w)"
proof (cases "buffered = []")
  case True
  then show ?thesis
    by (simp add: changeStream_def stream_map_def changes_map_def)
next
  case False
  then show ?thesis
    by (simp add: changeStream_after_map(2) changes_map_frame)
qed

subsection \<open>The completion popup\<close>

lemma showInvokedCompletions_frame:
  "this (showInvokedCompletions editor items wordRange w) = this w"
  by (simp add: showInvokedCompletions_def Let_def emit_def)

lemma showInvokedCompletions_empty: "showInvokedCompletions editor [] wordRange w = w"
  by (simp add: showInvokedCompletions_def)

lemma showInvokedCompletions_list:
  "items \<noteq> [] \<Longrightarrow>
     sent_since w (showInvokedCompletions editor items wordRange w) =
       [ShowHint editor (range_from wordRange) (range_to wordRange)
          (map hint_of (filteredItems items
             (getRange (cm w editor) (range_from wordRange) (range_to wordRange)) 30))]"
  by (rule sent_since_append) (simp add: showInvokedCompletions_def Let_def emit_def)

text \<open>
  When no two items share a label, every item finds its own score in the dictionary, and
  the popup's list is sorted by falling score and has at most \<open>maxItems\<close> entries.
\<close>

lemma scores_fold_other:
  "k \<notin> label ` set (items :: CompletionItem list) \<Longrightarrow>
     fold (\<lambda>item o'. o'(label item \<mapsto> lcsScore (filterText_or_label item) typed)) items m k = m k"
  by (induction items arbitrary: m) auto

lemma scores_defined:
  "item \<in> set (items :: CompletionItem list) \<Longrightarrow> scores items typed (label item) \<noteq> None"
proof -
  have "item \<in> set items \<or> m (label item) \<noteq> None \<Longrightarrow>
      fold (\<lambda>item o'. o'(label item \<mapsto> lcsScore (filterText_or_label item) typed)) items m
        (label item) \<noteq> None" for m
    by (induction items arbitrary: m) auto
  then show "item \<in> set items \<Longrightarrow> scores items typed (label item) \<noteq> None"
    by (simp add: scores_def)
qed

lemma scores_fold_own:
  "distinct (map label (items :: CompletionItem list)) \<Longrightarrow> item \<in> set items \<Longrightarrow>
     fold (\<lambda>item o'. o'(label item \<mapsto> lcsScore (filterText_or_label item) typed)) items m
       (label item) = Some (lcsScore (filterText_or_label item) typed)"
proof (induction items arbitrary: m)
  case Nil
  then show ?case by simp
next
  case (Cons x xs)
  show ?case
  proof (cases "item = x")
    case True
    with Cons.prems(1) have "label x \<notin> label ` set xs" by auto
    from scores_fold_other [OF this, of typed
        "m(label x \<mapsto> lcsScore (filterText_or_label x) typed)"]
    have "fold (\<lambda>item o'. o'(label item \<mapsto> lcsScore (filterText_or_label item) typed)) xs
            (m(label x \<mapsto> lcsScore (filterText_or_label x) typed)) (label x) =
          Some (lcsScore (filterText_or_label x) typed)"
      by (simp only: fun_upd_same)
    with True show ?thesis by (simp only: fold_simps)
  next
    case False
    with Cons.prems have "item \<in> set xs" "distinct (map label xs)" by auto
    from Cons.IH [OF this(2,1)] show ?thesis by simp
  qed
qed

lemma filteredItems_sorted_distinct:
  assumes "distinct (map label items)"
  shows "sorted_wrt (\<ge>) (map (\<lambda>item. lcsScore (filterText_or_label item) typed)
           (filteredItems items typed maxItems))"
    and "length (filteredItems items typed maxItems) \<le> maxItems"
proof -
  define own where "own = (\<lambda>item :: CompletionItem. lcsScore (filterText_or_label item) typed)"
  define key where "key = (\<lambda>item :: CompletionItem. - the (scores items typed (label item)))"
  define ys where "ys = sort_key key items"
  have k: "key item = - own item" if "item \<in> set items" for item
    using scores_fold_own [OF assms that] by (simp add: key_def own_def scores_def)
  have "sorted (map key ys)"
    unfolding ys_def by (rule sorted_sort_key)
  moreover have "map key ys = map (\<lambda>item. - own item) ys"
    by (rule map_cong) (simp_all add: ys_def k)
  ultimately have "sorted_wrt (\<lambda>a b. - own a \<le> - own b) ys"
    by (simp add: sorted_wrt_map)
  then have "sorted_wrt (\<lambda>a b. own a \<ge> own b) ys"
    by simp
  then have "sorted_wrt (\<lambda>a b. own a \<ge> own b) (take maxItems ys)"
    by (rule sorted_wrt_take)
  then show "sorted_wrt (\<ge>) (map (\<lambda>item. lcsScore (filterText_or_label item) typed)
           (filteredItems items typed maxItems))"
    by (simp add: sorted_wrt_map filteredItems_def key_def ys_def own_def)
  show "length (filteredItems items typed maxItems) \<le> maxItems"
    by (simp add: filteredItems_def)
qed

subsection \<open>The example configuration\<close>

text \<open>
  Facts about the example configuration.
\<close>

lemma example_uri: "getDocumentUri (this example_world) ''a.ts'' = ''file:///workspace/a.ts''"
  by (simp add: getDocumentUri_def example_world_def Workspace_constructor_def endsWith_def)

lemma example_assoc:
  "getLanguageAssociation example_env ''file:///workspace/a.ts'' =
     Some \<lparr> languageId = ''typescript'', languageServerIds = [''ts''] \<rparr>"
  by (simp add: example_env_def endsWith_def)

lemma example_serverId:
  "firstServerId \<lparr> languageId = ''typescript'', languageServerIds = [''ts''] \<rparr> = Some ''ts''"
  by (simp add: firstServerId_def)

lemma example_connection_string:
  "getConnectionString example_env ''ts'' = ''ws://localhost:9990''"
  "isWebSocket ''ws://localhost:9990''"
  by (simp_all add: example_env_def isWebSocket_def)

lemma example_tables:
  "connections (this example_world) = Map.empty"
  "created example_world = 0"
  "trace example_world = []"
  "rootUri (this example_world) = ''file:///workspace/''"
  "canHandleMarkdown (this example_world) = False"
  by (simp_all add: example_world_def Workspace_constructor_def endsWith_def)

lemma example_editor:
  "getValue (cm example_world e) = ''a.''"
  "getCursor (cm example_world e) = \<lparr> line = 0, ch = 2 \<rparr>"
  "token_type (getTokenAt (cm example_world e) p) = None"
  "completionActive (cm example_world e) = True"
  "syncsIncrementally (lsp example_world c) = True"
  "completionTriggers (lsp example_world c) = [''.'']"
  "signatureHelpTriggers (lsp example_world c) = [''('']"
  "signatureHelpRetriggers (lsp example_world c) = ['','']"
  by (simp_all add: example_world_def)

lemma example_connect:
  "connect example_env ''ts'' example_world = (Some 0, snd (connect example_env ''ts'' example_world))"
proof -
  have "fst (connect example_env ''ts'' example_world) = Some 0"
    by (simp add: connect_def connect_start_def example_env_def example_world_def
        Workspace_constructor_def emit_def isWebSocket_def Let_def)
  then show ?thesis by (metis prod.collapse)
qed

lemma opened_world_eq:
  "opened_world =
     openTextDocument_connected ''file:///workspace/a.ts''
       \<lparr> languageId = ''typescript'', languageServerIds = [''ts''] \<rparr> 0 0
       (snd (connect example_env ''ts'' example_world))"
  unfolding opened_world_def
  using openTextDocument_success [of example_env example_world "''a.ts''", OF _ example_serverId example_connect]
  by (simp add: example_uri example_assoc)

lemma opened_world_facts:
  "cm opened_world = cm example_world"
  "lsp opened_world = lsp example_world"
  "rootUri (this opened_world) = ''file:///workspace/''"
  "documentVersions (this opened_world) ''file:///workspace/a.ts'' = Some (Num 1)"
  "editors (this opened_world) ''file:///workspace/a.ts'' = Some 0"
  "connections (this opened_world) ''ts'' = Some 0"
proof -
  note fr = connect_frame [OF example_connect]
  show "cm opened_world = cm example_world" "lsp opened_world = lsp example_world"
    by (simp_all add: opened_world_eq openTextDocument_connected_simps fr)
  show "rootUri (this opened_world) = ''file:///workspace/''"
    by (simp add: opened_world_eq openTextDocument_connected_simps fr)
      (simp add: example_world_def Workspace_constructor_def endsWith_def)
  show "documentVersions (this opened_world) ''file:///workspace/a.ts'' = Some (Num 1)"
    "editors (this opened_world) ''file:///workspace/a.ts'' = Some 0"
    by (simp_all add: opened_world_eq openTextDocument_connected_simps)
  show "connections (this opened_world) ''ts'' = Some 0"
    by (simp add: opened_world_eq openTextDocument_connected_simps connect_stored [OF example_connect])
qed

lemma opened_uri: "getDocumentUri (this opened_world) ''a.ts'' = ''file:///workspace/a.ts''"
  by (simp add: getDocumentUri_def opened_world_facts)

lemma opened_assoc:
  "getLanguageAssociation example_env (getDocumentUri (this opened_world) ''a.ts'') =
     Some \<lparr> languageId = ''typescript'', languageServerIds = [''ts''] \<rparr>"
  by (simp add: opened_uri example_assoc)

lemma opened_editor: "editors (this opened_world) (getDocumentUri (this opened_world) ''a.ts'') = Some 0"
  by (simp add: opened_uri opened_world_facts)

lemma example_scores:
  "lcsScore ''ab'' ''ab'' = 5 / 2"
  "lcsScore ''a'' ''ab'' = 1"
  "lcsScore ''zz'' ''ab'' = 0"
  by code_simp+

section \<open>Document versions and change notifications\<close>

text \<open>
  C1. Let the \<^verbatim>\<open>"changes"\<close> events \<open>evs\<close> fall into one debounce window of
  \<open>CHANGES_FRAME\<close> ms, on a document whose version counter is \<open>v\<close>. Then
  \<open>debouncedBuffer\<close> makes a single delivery, holding all of them in order, and the
  calls made for that delivery contain exactly one \<^verbatim>\<open>didChange\<close>. Its version is
  \<open>v + 1\<close>, which is also the counter afterwards, however many changes the events
  hold. Its content changes are one \<open>lspChange\<close> entry for every change of every event,
  in order, when the connection synchronises incrementally, and otherwise the single
  entry that carries the whole text of the editor.
\<close>

theorem didChange_once_per_window:
  assumes "evs \<noteq> []" and "one_window CHANGES_FRAME evs"
    and "documentVersions (this w) uri = Some (Num v)"
  shows "let buffered = map snd evs;
             w' = snd (changeStream env uri conn buffered w)
         in debouncedBuffer CHANGES_FRAME evs = [buffered] \<and>
            filter is_didChange (sent_since w w') =
              [TextDocumentChanged conn uri (Num (v + 1))
                 (if syncsIncrementally (lsp w conn)
                  then map (lspChange env) (concat (map snd buffered))
                  else [WholeText (getValue (cm w (fst (hd buffered))))])] \<and>
            documentVersions (this w') uri = Some (Num (v + 1))"
proof -
  define buffered where "buffered = map snd evs"
  define w' where "w' = snd (changeStream env uri conn buffered w)"
  define w1 where "w1 = snd (changes_map env uri conn buffered w)"
  have ne: "buffered \<noteq> []"
    using assms(1) by (simp add: buffered_def)
  have a: "debouncedBuffer CHANGES_FRAME evs = [buffered]"
    unfolding buffered_def by (rule debouncedBuffer_one_window [OF assms(1,2)])
  have t1: "trace w1 = trace w @
       [TextDocumentChanged conn uri (Num (v + 1))
          (if syncsIncrementally (lsp w conn)
           then map (lspChange env) (concat (map snd buffered))
           else [WholeText (getValue (cm w (fst (hd buffered))))])]"
    and v1: "documentVersions (this w1) uri = Some (Num (v + 1))"
    unfolding w1_def by (simp_all add: changes_map_nonempty [OF ne] assms(3))
  from changeStream_after_map [OF ne, of env uri conn w] obtain tr where
    tr: "trace w' = trace w1 @ tr" "filter is_didChange tr = []"
    and th: "this w' = this w1"
    unfolding w'_def w1_def by blast
  have "sent_since w w' =
       TextDocumentChanged conn uri (Num (v + 1))
          (if syncsIncrementally (lsp w conn)
           then map (lspChange env) (concat (map snd buffered))
           else [WholeText (getValue (cm w (fst (hd buffered))))]) # tr"
    by (rule sent_since_append) (simp add: tr t1)
  then have b: "filter is_didChange (sent_since w w') =
       [TextDocumentChanged conn uri (Num (v + 1))
          (if syncsIncrementally (lsp w conn)
           then map (lspChange env) (concat (map snd buffered))
           else [WholeText (getValue (cm w (fst (hd buffered))))])]"
    by (simp add: tr)
  have c: "documentVersions (this w') uri = Some (Num (v + 1))"
    by (simp add: th v1)
  show ?thesis
    using a b c unfolding Let_def buffered_def [symmetric] w'_def [symmetric] by simp
qed

text \<open>
  The example: three events with four changes arrive at 0, 20 and 60 ms for the opened
  document, whose counter is 1.
\<close>

theorem didChange_once_per_window_witness:
  "one_window CHANGES_FRAME
     [(0, (0::nat, [typed_dot])), (20, (0, [deleted_char])), (60, (0, [typed_dot, pasted_a_dot]))] \<and>
   documentVersions (this opened_world) ''file:///workspace/a.ts'' = Some (Num 1) \<and>
   debouncedBuffer CHANGES_FRAME
     [(0, (0::nat, [typed_dot])), (20, (0, [deleted_char])), (60, (0, [typed_dot, pasted_a_dot]))] =
     [[(0, [typed_dot]), (0, [deleted_char]), (0, [typed_dot, pasted_a_dot])]] \<and>
   filter is_didChange
     (sent_since opened_world
        (snd (changeStream example_env ''file:///workspace/a.ts'' 0
                [(0, [typed_dot]), (0, [deleted_char]), (0, [typed_dot, pasted_a_dot])]
                opened_world))) =
     [TextDocumentChanged 0 ''file:///workspace/a.ts'' (Num 2)
        (map (lspChange example_env) [typed_dot, deleted_char, typed_dot, pasted_a_dot])] \<and>
   documentVersions
     (this (snd (changeStream example_env ''file:///workspace/a.ts'' 0
                   [(0, [typed_dot]), (0, [deleted_char]), (0, [typed_dot, pasted_a_dot])]
                   opened_world)))
     ''file:///workspace/a.ts'' = Some (Num 2)"
proof -
  have h1: "[(0::nat, (0::nat, [typed_dot])), (20, (0, [deleted_char])),
             (60, (0, [typed_dot, pasted_a_dot]))] \<noteq> []"
    by simp
  have h2: "one_window CHANGES_FRAME
     [(0::nat, (0::nat, [typed_dot])), (20, (0, [deleted_char])), (60, (0, [typed_dot, pasted_a_dot]))]"
    by (simp add: CHANGES_FRAME_def)
  have h3: "documentVersions (this opened_world) ''file:///workspace/a.ts'' = Some (Num 1)"
    by (rule opened_world_facts)
  show ?thesis
    using h2 h3 didChange_once_per_window [OF h1 h2 h3, where env = example_env and conn = 0]
    by (simp add: Let_def opened_world_facts example_editor)
qed

text \<open>
  C3. When an open succeeds (the URI has a language association with a first server ID,
  and \<open>connect\<close> gives a connection), exactly one \<^verbatim>\<open>didOpen\<close> is sent and it carries
  version 1, the value of the counter after it was set to 0 and incremented. Closing the
  document then returns normally and removes the counter, and opening the same path again
  sends one \<^verbatim>\<open>didOpen\<close>, again with version 1.
\<close>

theorem didOpen_version_one:
  assumes "getLanguageAssociation env (getDocumentUri (this w) path) = Some assoc"
    and "firstServerId assoc = Some serverId"
    and "connect env serverId w = (Some conn, w1)"
  shows "let uri = getDocumentUri (this w) path;
             w2 = openTextDocument env path editor w;
             w3 = snd (closeTextDocument env path w2);
             w4 = openTextDocument env path editor' w3
         in filter is_didOpen (sent_since w w2) =
              [TextDocumentOpened conn uri (languageId assoc) (getValue (cm w editor)) (Num 1)] \<and>
            documentVersions (this w2) uri = Some (Num 1) \<and>
            fst (closeTextDocument env path w2) = Return () \<and>
            documentVersions (this w3) uri = None \<and>
            filter is_didOpen (sent_since w3 w4) =
              [TextDocumentOpened conn uri (languageId assoc) (getValue (cm w3 editor')) (Num 1)] \<and>
            documentVersions (this w4) uri = Some (Num 1)"
proof -
  define uri where "uri = getDocumentUri (this w) path"
  define w2 where "w2 = openTextDocument env path editor w"
  define w3 where "w3 = snd (closeTextDocument env path w2)"
  define w4 where "w4 = openTextDocument env path editor' w3"
  note fr = connect_frame [OF assms(3)]
  have w2: "w2 = openTextDocument_connected uri assoc editor conn w1"
    unfolding w2_def uri_def by (rule openTextDocument_success [OF assms])
  have root2: "rootUri (this w2) = rootUri (this w)"
    by (simp add: w2 openTextDocument_connected_simps fr)
  then have uri2: "getDocumentUri (this w2) path = uri"
    by (simp add: uri_def getDocumentUri_def)
  have conn2: "connections (this w2) serverId = Some conn"
    by (simp add: w2 openTextDocument_connected_simps connect_stored [OF assms(3)])
  have ed2: "editors (this w2) uri = Some editor"
    by (simp add: w2 openTextDocument_connected_simps)
  have a1: "filter is_didOpen (sent_since w w2) =
              [TextDocumentOpened conn uri (languageId assoc) (getValue (cm w editor)) (Num 1)]"
    unfolding w2_def uri_def by (rule open_sends_version_one [OF assms])
  have a2: "documentVersions (this w2) uri = Some (Num 1)"
    by (simp add: w2 openTextDocument_connected_simps)
  have pre2: "getLanguageAssociation env (getDocumentUri (this w2) path) = Some assoc"
    "editors (this w2) (getDocumentUri (this w2) path) = Some editor"
    using assms(1) ed2 by (simp_all add: uri2) (simp add: uri_def)
  note cl = closeTextDocument_open [OF pre2(1) assms(2) conn2 pre2(2)]
  have a3: "fst (closeTextDocument env path w2) = Return ()"
    by (rule cl(1))
  have this3: "this w3 = (this w2)\<lparr>editors := (editors (this w2))(uri := None),
              documentVersions := (documentVersions (this w2))(uri := None),
              subscriptionDisposers := (subscriptionDisposers (this w2))(editor := None)\<rparr>"
    unfolding w3_def using cl(3) by (simp add: uri2)
  have a4: "documentVersions (this w3) uri = None"
    by (simp add: this3)
  have uri3: "getDocumentUri (this w3) path = uri"
    using uri2 by (simp add: this3 getDocumentUri_def)
  have conn3: "connect env serverId w3 = (Some conn, w3)"
    by (rule connect_existing) (simp add: this3 conn2)
  have pre3: "getLanguageAssociation env (getDocumentUri (this w3) path) = Some assoc"
    using assms(1) by (simp add: uri3) (simp add: uri_def)
  have a5: "filter is_didOpen (sent_since w3 w4) =
              [TextDocumentOpened conn uri (languageId assoc) (getValue (cm w3 editor')) (Num 1)]"
    unfolding w4_def using open_sends_version_one [OF pre3 assms(2) conn3] by (simp add: uri3)
  have "w4 = openTextDocument_connected uri assoc editor' conn w3"
    unfolding w4_def using openTextDocument_success [OF pre3 assms(2) conn3] by (simp add: uri3)
  then have a6: "documentVersions (this w4) uri = Some (Num 1)"
    by (simp add: openTextDocument_connected_simps)
  show ?thesis
    using a1 a2 a3 a4 a5 a6
    unfolding Let_def uri_def [symmetric] w2_def [symmetric] w3_def [symmetric] w4_def [symmetric]
    by simp
qed

text \<open>
  The example: \<^verbatim>\<open>a.ts\<close> is opened in editor 0, closed, and opened in editor 2.
\<close>

theorem didOpen_version_one_witness:
  "getLanguageAssociation example_env (getDocumentUri (this example_world) ''a.ts'') =
     Some \<lparr> languageId = ''typescript'', languageServerIds = [''ts''] \<rparr> \<and>
   firstServerId \<lparr> languageId = ''typescript'', languageServerIds = [''ts''] \<rparr> = Some ''ts'' \<and>
   fst (connect example_env ''ts'' example_world) = Some 0 \<and>
   filter is_didOpen
     (sent_since example_world (openTextDocument example_env ''a.ts'' 0 example_world)) =
     [TextDocumentOpened 0 ''file:///workspace/a.ts'' ''typescript'' ''a.'' (Num 1)] \<and>
   fst (closeTextDocument example_env ''a.ts''
          (openTextDocument example_env ''a.ts'' 0 example_world)) = Return () \<and>
   documentVersions
     (this (snd (closeTextDocument example_env ''a.ts''
                   (openTextDocument example_env ''a.ts'' 0 example_world))))
     ''file:///workspace/a.ts'' = None \<and>
   filter is_didOpen
     (sent_since
        (snd (closeTextDocument example_env ''a.ts''
                (openTextDocument example_env ''a.ts'' 0 example_world)))
        (openTextDocument example_env ''a.ts'' 2
           (snd (closeTextDocument example_env ''a.ts''
                   (openTextDocument example_env ''a.ts'' 0 example_world))))) =
     [TextDocumentOpened 0 ''file:///workspace/a.ts'' ''typescript'' ''a.'' (Num 1)]"
proof -
  have u: "getDocumentUri (this example_world) ''a.ts'' = ''file:///workspace/a.ts''"
    by (simp add: getDocumentUri_def example_world_def Workspace_constructor_def endsWith_def)
  have h1: "getLanguageAssociation example_env (getDocumentUri (this example_world) ''a.ts'') =
     Some \<lparr> languageId = ''typescript'', languageServerIds = [''ts''] \<rparr>"
    unfolding u by (simp add: example_env_def endsWith_def)
  have h2: "firstServerId \<lparr> languageId = ''typescript'', languageServerIds = [''ts''] \<rparr> = Some ''ts''"
    by (simp add: firstServerId_def)
  have f: "fst (connect example_env ''ts'' example_world) = Some 0"
    by (simp add: connect_def connect_start_def example_env_def example_world_def
        Workspace_constructor_def emit_def isWebSocket_def Let_def)
  then have h3: "connect example_env ''ts'' example_world =
      (Some 0, snd (connect example_env ''ts'' example_world))"
    by (metis prod.collapse)
  have v0: "getValue (cm example_world 0) = ''a.''"
    by (simp add: example_world_def)
  note t = didOpen_version_one [OF h1 h2 h3, of 0 2]
  have close: "fst (closeTextDocument example_env ''a.ts''
          (openTextDocument example_env ''a.ts'' 0 example_world)) = Return ()"
    using t by (simp add: Let_def)
  have o: "openTextDocument example_env ''a.ts'' 0 example_world =
      openTextDocument_connected ''file:///workspace/a.ts''
        \<lparr> languageId = ''typescript'', languageServerIds = [''ts''] \<rparr> 0 0
        (snd (connect example_env ''ts'' example_world))"
    using openTextDocument_success [OF h1 h2 h3] by (simp add: u)
  have cm1: "cm (snd (connect example_env ''ts'' example_world)) = cm example_world"
    using connect_frame [OF h3] by simp
  have v1: "getValue (cm (snd (closeTextDocument example_env ''a.ts''
                   (openTextDocument example_env ''a.ts'' 0 example_world))) 2) = ''a.''"
  proof -
    have "getValue (cm (snd (closeTextDocument example_env ''a.ts''
                   (openTextDocument example_env ''a.ts'' 0 example_world))) 2) =
          getValue (cm (openTextDocument example_env ''a.ts'' 0 example_world) 2)"
      using closeTextDocument_frame [OF prod.collapse [symmetric], of example_env "''a.ts''"
        "openTextDocument example_env ''a.ts'' 0 example_world" 2]
      by simp
    also have "\<dots> = getValue (cm example_world 2)"
      by (simp add: o openTextDocument_connected_simps cm1)
    also have "\<dots> = ''a.''"
      by (simp add: example_world_def)
    finally show ?thesis .
  qed
  show ?thesis
    using h1 h2 f t by (simp add: Let_def u v0 v1)
qed

section \<open>Connections\<close>

text \<open>
  C2 fails on the code. Two calls of \<^verbatim>\<open>connect\<close> for the server \<^verbatim>\<open>ts\<close> are started
  before the first is resumed: both find the table empty, because the connection is
  stored only after the second \<^verbatim>\<open>await\<close>. Resumed in turn, each creates a WebSocket and
  an \<^verbatim>\<open>LspConnection\<close>; the calls return the different connections 0 and 1, two
  connection objects exist, and the table keeps the second.
\<close>

theorem concurrent_connect_creates_two:
  "fst (run_schedule example_env
          [Call ''ts'', Call ''ts'', Resume 0, Resume 1, Resume 0, Resume 1, Resume 0, Resume 1]
          ([], example_world)) =
     [Resolved (Some 0), Resolved (Some 1)] \<and>
   filter is_transport
     (trace (snd (run_schedule example_env
          [Call ''ts'', Call ''ts'', Resume 0, Resume 1, Resume 0, Resume 1, Resume 0, Resume 1]
          ([], example_world)))) =
     [NewWebSocket ''ws://localhost:9990'', NewWebSocket ''ws://localhost:9990''] \<and>
   created (snd (run_schedule example_env
          [Call ''ts'', Call ''ts'', Resume 0, Resume 1, Resume 0, Resume 1, Resume 0, Resume 1]
          ([], example_world))) = 2 \<and>
   connections (this (snd (run_schedule example_env
          [Call ''ts'', Call ''ts'', Resume 0, Resume 1, Resume 0, Resume 1, Resume 0, Resume 1]
          ([], example_world)))) ''ts'' = Some 1"
  by (simp add: connect_start_def emit_def Let_def example_connection_string example_tables)

section \<open>Completion and signature help triggers\<close>

text \<open>
  C4. When the last change of the last event of a delivery is a deletion (origin
  \<^verbatim>\<open>+delete\<close>, or every line of its text empty), the delivery ends normally; after the
  \<^verbatim>\<open>didChange\<close> of the map step the only calls are the closing of the completion popup,
  if one is shown, and \<^verbatim>\<open>removeSignatureHelp\<close>; no completion or signature help request
  is among the calls of the delivery; and no completion popup is shown afterwards.
\<close>

theorem deletion_suppresses:
  assumes "buffered \<noteq> []" and "snd (last buffered) \<noteq> []"
    and "text_removed (last (snd (last buffered)))"
  shows "let editor = fst (hd buffered);
             w1 = snd (changes_map env uri conn buffered w);
             w2 = snd (changeStream env uri conn buffered w)
         in fst (changeStream env uri conn buffered w) = Return () \<and>
            sent_since w1 w2 = closing w editor @ [RemoveSignatureHelp (Some editor)] \<and>
            filter is_request (sent_since w w2) = [] \<and>
            completionActive (cm w2 editor) = False"
proof -
  define editor where "editor = fst (hd buffered)"
  define w1 where "w1 = snd (changes_map env uri conn buffered w)"
  define w2 where "w2 = snd (changeStream env uri conn buffered w)"
  have w2: "w2 = removeSignatureHelp (Some editor) (hideCompletions editor w1)"
    unfolding w2_def w1_def editor_def by (simp add: changeStream_removed [OF assms])
  have cm1: "cm w1 = cm w"
    unfolding w1_def by (rule changes_map_frame [OF assms(1)])
  then have cl: "closing w1 editor = closing w editor"
    by (simp add: closing_def)
  have t2: "trace w2 = trace w1 @ (closing w editor @ [RemoveSignatureHelp (Some editor)])"
    by (simp add: w2 removeSignatureHelp_simps hideCompletions_simps cl)
  have t1: "trace w1 = trace w @
         [TextDocumentChanged conn uri (increment (documentVersions (this w) uri))
            (if syncsIncrementally (lsp w conn)
             then map (lspChange env) (concat (map snd buffered))
             else [WholeText (getValue (cm w (fst (hd buffered))))])]"
    unfolding w1_def by (simp add: changes_map_nonempty [OF assms(1)])
  have a: "fst (changeStream env uri conn buffered w) = Return ()"
    by (simp add: changeStream_removed [OF assms])
  have b: "sent_since w1 w2 = closing w editor @ [RemoveSignatureHelp (Some editor)]"
    by (rule sent_since_append [OF t2])
  have "sent_since w w2 =
         TextDocumentChanged conn uri (increment (documentVersions (this w) uri))
            (if syncsIncrementally (lsp w conn)
             then map (lspChange env) (concat (map snd buffered))
             else [WholeText (getValue (cm w (fst (hd buffered))))]) #
         closing w editor @ [RemoveSignatureHelp (Some editor)]"
    by (rule sent_since_append) (simp add: t2 t1)
  then have c: "filter is_request (sent_since w w2) = []"
    by (simp add: closing_def)
  have d: "completionActive (cm w2 editor) = False"
    by (simp add: w2 removeSignatureHelp_simps hideCompletions_simps)
  show ?thesis
    using a b c d
    unfolding Let_def editor_def [symmetric] w1_def [symmetric] w2_def [symmetric]
    by simp
qed

text \<open>
  The example: in the opened document a dot is typed and deleted again within one
  delivery, while a completion popup is shown.
\<close>

theorem deletion_suppresses_witness:
  "text_removed (last (snd (last [(0, [typed_dot]), (0, [deleted_char])]))) \<and>
   fst (changeStream example_env ''file:///workspace/a.ts'' 0
          [(0, [typed_dot]), (0, [deleted_char])] opened_world) = Return () \<and>
   sent_since
     (snd (changes_map example_env ''file:///workspace/a.ts'' 0
             [(0, [typed_dot]), (0, [deleted_char])] opened_world))
     (snd (changeStream example_env ''file:///workspace/a.ts'' 0
             [(0, [typed_dot]), (0, [deleted_char])] opened_world)) =
     [CompletionClose 0, RemoveSignatureHelp (Some 0)] \<and>
   filter is_request
     (sent_since opened_world
        (snd (changeStream example_env ''file:///workspace/a.ts'' 0
                [(0, [typed_dot]), (0, [deleted_char])] opened_world))) = [] \<and>
   completionActive
     (cm (snd (changeStream example_env ''file:///workspace/a.ts'' 0
                 [(0, [typed_dot]), (0, [deleted_char])] opened_world)) 0) = False"
proof -
  have h1: "[(0::nat, [typed_dot]), (0, [deleted_char])] \<noteq> []" by simp
  have h2: "snd (last [(0::nat, [typed_dot]), (0, [deleted_char])]) \<noteq> []" by simp
  have h3: "text_removed (last (snd (last [(0::nat, [typed_dot]), (0, [deleted_char])])))"
    by (simp add: text_removed_def deleted_char_def)
  have c: "closing opened_world 0 = [CompletionClose 0]"
    by (simp add: closing_def opened_world_facts example_editor)
  show ?thesis
    using h3 deletion_suppresses [OF h1 h2 h3, where env = example_env
        and uri = "''file:///workspace/a.ts''" and conn = 0 and w = opened_world]
    by (simp add: Let_def c)
qed

text \<open>
  C5, as amended. For a delivery whose last change is not a deletion, the delivery ends
  normally and, after the \<^verbatim>\<open>didChange\<close> of the map step, exactly one of four things
  happens, decided in this order: (1) the token at the cursor is identifier-, property-
  or type-like: signature help is removed, then a completion request with trigger kind
  ``invoked'' is issued; (2) else the last line of the change's inserted text, as a whole
  string \<open>c\<close>, is a declared completion trigger: signature help is removed, then a
  completion request with trigger kind ``trigger character'' carrying \<open>c\<close> is issued;
  (3) else \<open>c\<close> is a declared signature help trigger or re-trigger: the completion
  popup is closed and signature help removed, then a signature help request carrying
  \<open>c\<close> is issued; (4) else the popup is closed and signature help removed, and no
  request is issued. For a change that inserts a single character, \<open>c\<close> is that
  character.
\<close>

theorem trigger_decision:
  assumes "buffered \<noteq> []" and "snd (last buffered) \<noteq> []"
    and "\<not> text_removed (last (snd (last buffered)))"
  shows "let editor = fst (hd buffered);
             change = last (snd (last buffered));
             c = last (change_text change);
             pos = getCursor (cm w editor);
             token = getTokenAt (cm w editor) pos;
             w1 = snd (changes_map env uri conn buffered w);
             w2 = snd (changeStream env uri conn buffered w)
         in fst (changeStream env uri conn buffered w) = Return () \<and>
            sent_since w1 w2 =
              (if identifier_token token
               then [RemoveSignatureHelp (Some editor),
                     GetCompletion conn uri (lspPosition env pos) Invoked]
               else if c \<in> set (completionTriggers (lsp w conn))
               then [RemoveSignatureHelp (Some editor),
                     GetCompletion conn uri (lspPosition env pos) (TriggerCharacter (Some c))]
               else if c \<in> set (signatureHelpTriggers (lsp w conn)) \<or>
                       c \<in> set (signatureHelpRetriggers (lsp w conn))
               then closing w editor @
                    [RemoveSignatureHelp (Some editor),
                     GetSignatureHelp conn uri (lspPosition env pos) (Some c)]
               else closing w editor @ [RemoveSignatureHelp (Some editor)])"
proof -
  define editor where "editor = fst (hd buffered)"
  define change where "change = last (snd (last buffered))"
  define w1 where "w1 = snd (changes_map env uri conn buffered w)"
  define w2 where "w2 = snd (changeStream env uri conn buffered w)"
  have cs: "changeStream env uri conn buffered w =
      changes_subscriber env uri conn (editor, Some change) w1"
    unfolding w1_def editor_def change_def by (rule changeStream_kept [OF assms])
  then have w2: "w2 = snd (changes_subscriber env uri conn (editor, Some change) w1)"
    by (simp add: w2_def)
  have fr: "cm w1 = cm w" "lsp w1 = lsp w"
    unfolding w1_def by (rule changes_map_frame [OF assms(1)])+
  then have cl: "closing w1 editor = closing w editor"
    by (simp add: closing_def)
  have tc: "triggerCharacter change = Some (last (change_text change))"
    using not_removed_text [OF assms(3)] by (simp add: triggerCharacter_def change_def)
  have a: "fst (changeStream env uri conn buffered w) = Return ()"
    by (simp add: cs changes_subscriber_Some)
  have "trace w2 = trace w1 @
     (let pos = getCursor (cm w editor);
          token = getTokenAt (cm w editor) pos;
          c = last (change_text change)
      in if identifier_token token
         then [RemoveSignatureHelp (Some editor), GetCompletion conn uri (lspPosition env pos) Invoked]
         else if c \<in> set (completionTriggers (lsp w conn))
         then [RemoveSignatureHelp (Some editor),
               GetCompletion conn uri (lspPosition env pos) (TriggerCharacter (Some c))]
         else if c \<in> set (signatureHelpTriggers (lsp w conn)) \<or>
                 c \<in> set (signatureHelpRetriggers (lsp w conn))
         then closing w editor @
              [RemoveSignatureHelp (Some editor),
               GetSignatureHelp conn uri (lspPosition env pos) (Some c)]
         else closing w editor @ [RemoveSignatureHelp (Some editor)])"
    unfolding w2 changes_subscriber_Some
    by (simp add: Let_def fr cl tc array_includes_def)
  from sent_since_append [OF this] a show ?thesis
    unfolding Let_def editor_def [symmetric] change_def [symmetric] w1_def [symmetric]
      w2_def [symmetric]
    by simp
qed

text \<open>
  The example: a dot is typed behind \<^verbatim>\<open>a\<close>; the dot is a declared completion trigger.
\<close>

theorem trigger_decision_witness:
  "\<not> text_removed (last (snd (last [(0, [typed_dot])]))) \<and>
   fst (changeStream example_env ''file:///workspace/a.ts'' 0 [(0, [typed_dot])] opened_world) =
     Return () \<and>
   sent_since
     (snd (changes_map example_env ''file:///workspace/a.ts'' 0 [(0, [typed_dot])] opened_world))
     (snd (changeStream example_env ''file:///workspace/a.ts'' 0 [(0, [typed_dot])] opened_world)) =
     [RemoveSignatureHelp (Some 0),
      GetCompletion 0 ''file:///workspace/a.ts'' \<lparr> lsp_line = 0, lsp_character = 2 \<rparr>
        (TriggerCharacter (Some ''.''))]"
proof -
  have h1: "[(0::nat, [typed_dot])] \<noteq> []" by simp
  have h2: "snd (last [(0::nat, [typed_dot])]) \<noteq> []" by simp
  have h3: "\<not> text_removed (last (snd (last [(0::nat, [typed_dot])])))"
    by (simp add: text_removed_def typed_dot_def)
  have tok: "\<not> identifier_token (getTokenAt (cm example_world 0) \<lparr> line = 0, ch = 2 \<rparr>)"
    by (simp add: identifier_token_def example_editor)
  have pos: "lspPosition example_env \<lparr> line = 0, ch = 2 \<rparr> = \<lparr> lsp_line = 0, lsp_character = 2 \<rparr>"
    by (simp add: example_env_def)
  have ct: "change_text typed_dot = [''.'']"
    by (simp add: typed_dot_def)
  show ?thesis
    using h3 trigger_decision [OF h1 h2 h3, where env = example_env
        and uri = "''file:///workspace/a.ts''" and conn = 0 and w = opened_world]
    by (simp add: Let_def opened_world_facts example_editor tok pos ct)
qed

text \<open>
  C5 as stated fails. The text \<^verbatim>\<open>a.\<close> is pasted in one change: the last inserted character is the declared
  completion trigger \<^verbatim>\<open>.\<close>, the token at the cursor has no type, and the change is not a
  deletion; but \<^verbatim>\<open>change.text[change.text.length - 1]\<close> is the whole line \<^verbatim>\<open>a.\<close>, which
  is not a trigger, so the last branch runs and no request is issued.
\<close>

theorem trigger_decision_counterexample:
  "last (last (change_text pasted_a_dot)) = CHR ''.'' \<and>
   [CHR ''.''] \<in> set (completionTriggers (lsp opened_world 0)) \<and>
   \<not> text_removed pasted_a_dot \<and>
   \<not> identifier_token (getTokenAt (cm opened_world 0) (getCursor (cm opened_world 0))) \<and>
   sent_since
     (snd (changes_map example_env ''file:///workspace/a.ts'' 0 [(0, [pasted_a_dot])] opened_world))
     (snd (changeStream example_env ''file:///workspace/a.ts'' 0 [(0, [pasted_a_dot])] opened_world)) =
     [CompletionClose 0, RemoveSignatureHelp (Some 0)] \<and>
   filter is_request
     (sent_since opened_world
        (snd (changeStream example_env ''file:///workspace/a.ts'' 0 [(0, [pasted_a_dot])]
                opened_world))) = []"
proof -
  have h1: "[(0::nat, [pasted_a_dot])] \<noteq> []" by simp
  have h2: "snd (last [(0::nat, [pasted_a_dot])]) \<noteq> []" by simp
  have h3: "\<not> text_removed (last (snd (last [(0::nat, [pasted_a_dot])])))"
    by (simp add: text_removed_def pasted_a_dot_def)
  have tok: "\<not> identifier_token (getTokenAt (cm example_world 0) \<lparr> line = 0, ch = 2 \<rparr>)"
    by (simp add: identifier_token_def example_editor)
  have ct: "change_text pasted_a_dot = [''a.'']"
    by (simp add: pasted_a_dot_def)
  define w1 where
    "w1 = snd (changes_map example_env ''file:///workspace/a.ts'' 0 [(0, [pasted_a_dot])] opened_world)"
  define w2 where
    "w2 = snd (changeStream example_env ''file:///workspace/a.ts'' 0 [(0, [pasted_a_dot])] opened_world)"
  have fr: "cm w1 = cm example_world" "lsp w1 = lsp example_world"
    unfolding w1_def by (simp_all add: changes_map_frame [OF h1] opened_world_facts)
  have w2: "w2 =
      snd (changes_subscriber example_env ''file:///workspace/a.ts'' 0 (0, Some pasted_a_dot) w1)"
    unfolding w2_def w1_def using changeStream_kept [OF h1 h2 h3] by simp
  have t2: "trace w2 = trace w1 @ [CompletionClose 0, RemoveSignatureHelp (Some 0)]"
    unfolding w2 changes_subscriber_Some
    by (simp add: Let_def fr example_editor tok array_includes_def triggerCharacter_def ct
        closing_def)
  have t1: "trace w1 = trace opened_world @
       [TextDocumentChanged 0 ''file:///workspace/a.ts'' (Num 2)
          (map (lspChange example_env) [pasted_a_dot])]"
    unfolding w1_def by (simp add: changes_map_nonempty [OF h1] opened_world_facts example_editor)
  have a: "sent_since w1 w2 = [CompletionClose 0, RemoveSignatureHelp (Some 0)]"
    by (rule sent_since_append [OF t2])
  have "sent_since opened_world w2 =
       [TextDocumentChanged 0 ''file:///workspace/a.ts'' (Num 2)
          (map (lspChange example_env) [pasted_a_dot]),
        CompletionClose 0, RemoveSignatureHelp (Some 0)]"
    by (rule sent_since_append) (simp add: t2 t1)
  then have b: "filter is_request (sent_since opened_world w2) = []"
    by simp
  show ?thesis
    using h3 tok a b unfolding w1_def w2_def
    by (simp add: ct opened_world_facts example_editor)
qed

section \<open>Saving and closing\<close>

text \<open>
  C6, as amended. A save of an open document whose server is connected sends
  \<^verbatim>\<open>willSave\<close> and the request for pre-save edits, both with reason manual. If the
  request answers \<^verbatim>\<open>null\<close>, \<^verbatim>\<open>didSave\<close> with the current text follows at once. If it
  answers an edit list, empty or not, the edits are applied to the editor, the call waits
  \<open>3 / 2\<close> times \<open>CHANGES_FRAME\<close> ms, and \<^verbatim>\<open>didSave\<close> is then sent with the text that
  the edits left (nothing else running in between).
\<close>

theorem save_flow:
  assumes "getLanguageAssociation env (getDocumentUri (this w) path) = Some assoc"
    and "firstServerId assoc = Some serverId"
    and "connections (this w) serverId = Some conn"
    and "editors (this w) (getDocumentUri (this w) path) = Some editor"
  shows "sent_since w (saveTextDocument env path edits w) =
     [TextDocumentWillSave conn (getDocumentUri (this w) path) Manual,
      GetEditsBeforeSave conn (getDocumentUri (this w) path) Manual] @
     (case edits of
        None \<Rightarrow> [TextDocumentSaved conn (getDocumentUri (this w) path) (getValue (cm w editor))]
      | Some es \<Rightarrow>
          [ApplyEdits editor es ''beforeSave'',
           Delay (3 / 2 * of_nat CHANGES_FRAME),
           TextDocumentSaved conn (getDocumentUri (this w) path)
             (applyEdits env (getValue (cm w editor)) es)])"
  by (rule sent_since_append) (rule saveTextDocument_trace [OF assms])

text \<open>
  The example: a save answered with one edit, and a save answered with \<^verbatim>\<open>null\<close>.
\<close>

theorem save_flow_witness:
  "sent_since opened_world
     (saveTextDocument example_env ''a.ts''
        (Some [\<lparr> edit_start = \<lparr> lsp_line = 0, lsp_character = 0 \<rparr>,
                  edit_end = \<lparr> lsp_line = 0, lsp_character = 0 \<rparr>, newText = ''x'' \<rparr>])
        opened_world) =
     [TextDocumentWillSave 0 ''file:///workspace/a.ts'' Manual,
      GetEditsBeforeSave 0 ''file:///workspace/a.ts'' Manual,
      ApplyEdits 0 [\<lparr> edit_start = \<lparr> lsp_line = 0, lsp_character = 0 \<rparr>,
                      edit_end = \<lparr> lsp_line = 0, lsp_character = 0 \<rparr>, newText = ''x'' \<rparr>]
        ''beforeSave'',
      Delay 75,
      TextDocumentSaved 0 ''file:///workspace/a.ts'' ''xa.''] \<and>
   sent_since opened_world (saveTextDocument example_env ''a.ts'' None opened_world) =
     [TextDocumentWillSave 0 ''file:///workspace/a.ts'' Manual,
      GetEditsBeforeSave 0 ''file:///workspace/a.ts'' Manual,
      TextDocumentSaved 0 ''file:///workspace/a.ts'' ''a.'']"
proof -
  note s = save_flow [OF opened_assoc example_serverId opened_world_facts(6) opened_editor]
  have ap: "applyEdits example_env ''a.''
       [\<lparr> edit_start = \<lparr> lsp_line = 0, lsp_character = 0 \<rparr>,
          edit_end = \<lparr> lsp_line = 0, lsp_character = 0 \<rparr>, newText = ''x'' \<rparr>] = ''xa.''"
    by (simp add: example_env_def)
  show ?thesis
    using s [of "Some [\<lparr> edit_start = \<lparr> lsp_line = 0, lsp_character = 0 \<rparr>,
                  edit_end = \<lparr> lsp_line = 0, lsp_character = 0 \<rparr>, newText = ''x'' \<rparr>]"]
      s [of None]
    by (simp add: opened_uri opened_world_facts example_editor ap CHANGES_FRAME_def)
qed

text \<open>
  C6 as stated fails. The server answers the request for pre-save edits with an empty list: no edits are
  returned, but \<^verbatim>\<open>if (edits)\<close> holds for an empty array, so the (empty) edits are applied
  and \<^verbatim>\<open>didSave\<close> is sent only after the delay of 75 ms.
\<close>

theorem save_flow_counterexample:
  "sent_since opened_world (saveTextDocument example_env ''a.ts'' (Some []) opened_world) =
     [TextDocumentWillSave 0 ''file:///workspace/a.ts'' Manual,
      GetEditsBeforeSave 0 ''file:///workspace/a.ts'' Manual,
      ApplyEdits 0 [] ''beforeSave'',
      Delay 75,
      TextDocumentSaved 0 ''file:///workspace/a.ts'' ''a.'']"
proof -
  have ap: "applyEdits example_env ''a.'' [] = ''a.''"
    by (simp add: example_env_def)
  have "trace (saveTextDocument example_env ''a.ts'' (Some []) opened_world) =
     trace opened_world @
     [TextDocumentWillSave 0 ''file:///workspace/a.ts'' Manual,
      GetEditsBeforeSave 0 ''file:///workspace/a.ts'' Manual,
      ApplyEdits 0 [] ''beforeSave'',
      Delay 75,
      TextDocumentSaved 0 ''file:///workspace/a.ts'' ''a.'']"
    using saveTextDocument_trace [OF opened_assoc example_serverId opened_world_facts(6)
        opened_editor, of "Some []"]
    by (simp add: opened_uri opened_world_facts example_editor ap CHANGES_FRAME_def)
  then show ?thesis by (rule sent_since_append)
qed

text \<open>
  C7 fails on the code for the second close. The first close of the opened document
  returns normally: it calls each of the editor's seven disposers once, clears the
  transient UI and sends \<^verbatim>\<open>didClose\<close>. A second close of the same path finds no editor
  in the table but goes on, as \<^verbatim>\<open>closeTextDocument\<close> lacks the check that
  \<^verbatim>\<open>saveTextDocument\<close> has; \<^verbatim>\<open>removeEventHandlers(undefined)\<close> calls the renderers with
  \<^verbatim>\<open>undefined\<close> and \<^verbatim>\<open>hideCompletions\<close> throws a TypeError. Nothing is sent, but the call
  does not return normally.
\<close>

theorem second_close_throws:
  "fst (closeTextDocument example_env ''a.ts'' opened_world) = Return () \<and>
   sent_since opened_world (snd (closeTextDocument example_env ''a.ts'' opened_world)) =
     map Dispose (disposers_of 0) @
     [RemoveDiagnostics (Some 0), RemoveHoverInfo (Some 0), RemoveHighlights (Some 0),
      CompletionClose 0, RemoveSignatureHelp (Some 0),
      TextDocumentClosed 0 ''file:///workspace/a.ts''] \<and>
   fst (closeTextDocument example_env ''a.ts''
          (snd (closeTextDocument example_env ''a.ts'' opened_world))) = Throw TypeError \<and>
   sent_since (snd (closeTextDocument example_env ''a.ts'' opened_world))
     (snd (closeTextDocument example_env ''a.ts''
             (snd (closeTextDocument example_env ''a.ts'' opened_world)))) =
     [RemoveDiagnostics None, RemoveHoverInfo None, RemoveHighlights None]"
proof -
  define w1 where "w1 = snd (closeTextDocument example_env ''a.ts'' opened_world)"
  note c1 = closeTextDocument_open [OF opened_assoc example_serverId opened_world_facts(6)
      opened_editor]
  have sd: "subscriptionDisposers (this opened_world) 0 = Some (disposers_of 0)"
    by (simp add: opened_world_eq openTextDocument_connected_simps)
  have a: "fst (closeTextDocument example_env ''a.ts'' opened_world) = Return ()"
    by (rule c1(1))
  have "trace w1 = trace opened_world @
     (map Dispose (disposers_of 0) @
     [RemoveDiagnostics (Some 0), RemoveHoverInfo (Some 0), RemoveHighlights (Some 0),
      CompletionClose 0, RemoveSignatureHelp (Some 0),
      TextDocumentClosed 0 ''file:///workspace/a.ts''])"
    unfolding w1_def c1(2)
    by (simp add: sd closing_def opened_world_facts example_editor opened_uri)
  then have b: "sent_since opened_world w1 =
     map Dispose (disposers_of 0) @
     [RemoveDiagnostics (Some 0), RemoveHoverInfo (Some 0), RemoveHighlights (Some 0),
      CompletionClose 0, RemoveSignatureHelp (Some 0),
      TextDocumentClosed 0 ''file:///workspace/a.ts'']"
    by (rule sent_since_append)
  have this1: "this w1 = (this opened_world)
       \<lparr>editors := (editors (this opened_world))(''file:///workspace/a.ts'' := None),
         documentVersions := (documentVersions (this opened_world))(''file:///workspace/a.ts'' := None),
         subscriptionDisposers := (subscriptionDisposers (this opened_world))(0 := None)\<rparr>"
    unfolding w1_def c1(3) by (simp add: opened_uri)
  have uri1: "getDocumentUri (this w1) ''a.ts'' = ''file:///workspace/a.ts''"
    by (simp add: this1 getDocumentUri_def opened_world_facts)
  have p1: "getLanguageAssociation example_env (getDocumentUri (this w1) ''a.ts'') =
     Some \<lparr> languageId = ''typescript'', languageServerIds = [''ts''] \<rparr>"
    by (simp add: uri1 example_assoc)
  have p3: "connections (this w1) ''ts'' = Some 0"
    by (simp add: this1 opened_world_facts)
  have p4: "editors (this w1) (getDocumentUri (this w1) ''a.ts'') = None"
    by (simp add: uri1) (simp add: this1)
  note c2 = closeTextDocument_closed [OF p1 example_serverId p3 p4]
  have c: "fst (closeTextDocument example_env ''a.ts'' w1) = Throw TypeError"
    by (rule c2(1))
  have d: "sent_since w1 (snd (closeTextDocument example_env ''a.ts'' w1)) =
     [RemoveDiagnostics None, RemoveHoverInfo None, RemoveHighlights None]"
    by (rule sent_since_append) (rule c2(2))
  show ?thesis
    using a b c d unfolding w1_def by simp
qed

section \<open>The root URI\<close>

lemma constructor_trailing:
  "trailing_separators (rootUri (Workspace_constructor r md)) = max 1 (trailing_separators r)"
  by (cases r rule: rev_cases)
    (auto simp: Workspace_constructor_def endsWith_slash trailing_separators_def)

text \<open>
  C8, as amended. The root URI that the constructor stores ends with a separator: one is
  appended exactly when the given URI does not end with one, so a URI given with \<open>n\<close>
  separators at its end is stored with \<open>max 1 n\<close> of them (exactly one unless it was
  given with two or more). No method of the workspace changes the stored root URI, and a
  document URI is the root URI followed by the path without its leading separators.
\<close>

theorem rootUri_trailing_separator:
  "endsWith (rootUri (Workspace_constructor r md)) ''/'' \<and>
   trailing_separators (rootUri (Workspace_constructor r md)) = max 1 (trailing_separators r) \<and>
   rootUri (this (openTextDocument env path editor w)) = rootUri (this w) \<and>
   rootUri (this (snd (closeTextDocument env path w))) = rootUri (this w) \<and>
   rootUri (this (saveTextDocument env path edits w)) = rootUri (this w) \<and>
   rootUri (this (snd (changeStream env uri conn buffered w))) = rootUri (this w) \<and>
   rootUri (this (snd (connect_start serverId w))) = rootUri (this w) \<and>
   rootUri (this (snd (connect_resume env task w))) = rootUri (this w) \<and>
   rootUri (this (onClose_handler serverId w)) = rootUri (this w) \<and>
   rootUri (this (showInvokedCompletions editor items wordRange w)) = rootUri (this w) \<and>
   getDocumentUri (this w) path = rootUri (this w) @ dropWhile (\<lambda>c. c = CHR ''/'') path"
proof -
  have a: "endsWith (rootUri (Workspace_constructor r md)) ''/''"
    by (simp add: Workspace_constructor_def endsWith_slash)
  have b: "rootUri (this (snd (closeTextDocument env path w))) = rootUri (this w)"
    using closeTextDocument_frame [OF prod.collapse [symmetric]] by simp
  have c: "rootUri (this (snd (connect_start serverId w))) = rootUri (this w)"
    using connect_start_frame [OF prod.collapse [symmetric]] by simp
  have d: "rootUri (this (snd (connect_resume env task w))) = rootUri (this w)"
    using connect_resume_frame [OF prod.collapse [symmetric]] by simp
  have e: "rootUri (this (onClose_handler serverId w)) = rootUri (this w)"
    by (simp add: onClose_handler_def)
  show ?thesis
    using a b c d e
    by (simp add: constructor_trailing openTextDocument_frame saveTextDocument_frame
        changeStream_frame showInvokedCompletions_frame getDocumentUri_def)
qed

text \<open>
  The example: the root \<^verbatim>\<open>file:///workspace\<close> gets its separator, it is still there
  after a document was opened and saved, and \<^verbatim>\<open>/src/a.ts\<close> is resolved against it.
\<close>

theorem rootUri_trailing_separator_witness:
  "rootUri (Workspace_constructor ''file:///workspace'' False) = ''file:///workspace/'' \<and>
   trailing_separators (rootUri (Workspace_constructor ''file:///workspace'' False)) = 1 \<and>
   rootUri (this (saveTextDocument example_env ''/src/a.ts'' None opened_world)) =
     ''file:///workspace/'' \<and>
   getDocumentUri (this opened_world) ''/src/a.ts'' = ''file:///workspace/src/a.ts''"
proof -
  have t: "trailing_separators ''file:///workspace'' = 0"
    by (simp add: trailing_separators_def)
  have r: "rootUri (Workspace_constructor ''file:///workspace'' False) = ''file:///workspace/''"
    by (simp add: Workspace_constructor_def endsWith_def)
  show ?thesis
    using rootUri_trailing_separator [where r = "''file:///workspace''" and md = False
        and env = example_env and path = "''/src/a.ts''" and editor = 0 and w = opened_world
        and edits = None and uri = "[]" and conn = 0 and buffered = "[]" and serverId = "[]"
        and task = "Resolved None" and items = "[]"
        and wordRange = "\<lparr> range_from = \<lparr> line = 0, ch = 0 \<rparr>, range_to = \<lparr> line = 0, ch = 0 \<rparr> \<rparr>"]
    by (simp add: t r opened_world_facts)
qed

text \<open>
  C8 as stated fails. A root URI given with two separators at its end is stored as it is,
  since it already ends with a separator.
\<close>

theorem rootUri_trailing_separator_counterexample:
  "rootUri (Workspace_constructor ''file:///workspace//'' False) = ''file:///workspace//'' \<and>
   trailing_separators (rootUri (Workspace_constructor ''file:///workspace//'' False)) = 2"
  by (simp add: Workspace_constructor_def endsWith_def trailing_separators_def)

section \<open>The completion list\<close>

text \<open>
  C10 fails on the code when two items share a label. With \<^verbatim>\<open>ab\<close> typed, the item
  with the label \<^verbatim>\<open>f\<close> and the filter text \<^verbatim>\<open>ab\<close> scores \<open>5 / 2\<close>, but the dictionary
  entry for \<^verbatim>\<open>f\<close> is overwritten by the later item with the filter text \<^verbatim>\<open>zz\<close>, which
  scores 0. The list handed to the popup has the items in an order in which the scores of
  their own filter texts are 1, \<open>5 / 2\<close>, 0, which is not falling.
\<close>

theorem filteredItems_duplicate_labels:
  "sent_since completing_world
     (showInvokedCompletions 0 [item_f_ab, item_g_a, item_f_zz] ab_range completing_world) =
     [ShowHint 0 \<lparr> line = 0, ch = 0 \<rparr> \<lparr> line = 0, ch = 2 \<rparr>
        (map hint_of [item_g_a, item_f_ab, item_f_zz])] \<and>
   map (\<lambda>item. lcsScore (filterText_or_label item) ''ab'') [item_g_a, item_f_ab, item_f_zz] =
     [1, 5 / 2, 0]"
proof -
  have f: "filteredItems [item_f_ab, item_g_a, item_f_zz] ''ab'' 30 =
      [item_g_a, item_f_ab, item_f_zz]"
    by (simp add: filteredItems_def scores_def filterText_or_label_def item_f_ab_def item_g_a_def
        item_f_zz_def example_scores)
  have r: "getRange (cm completing_world 0) (range_from ab_range) (range_to ab_range) = ''ab''"
    by (simp add: completing_world_def)
  have s: "map (\<lambda>item. lcsScore (filterText_or_label item) ''ab'') [item_g_a, item_f_ab, item_f_zz] =
     [1, 5 / 2, 0]"
    by (simp add: filterText_or_label_def item_f_ab_def item_g_a_def item_f_zz_def example_scores)
  have l: "sent_since completing_world
     (showInvokedCompletions 0 [item_f_ab, item_g_a, item_f_zz] ab_range completing_world) =
     [ShowHint 0 (range_from ab_range) (range_to ab_range)
        (map hint_of [item_g_a, item_f_ab, item_f_zz])]"
    using showInvokedCompletions_list [of "[item_f_ab, item_g_a, item_f_zz]" completing_world 0
        ab_range]
    by (simp only: r f) simp
  have "range_from ab_range = \<lparr> line = 0, ch = 0 \<rparr>" "range_to ab_range = \<lparr> line = 0, ch = 2 \<rparr>"
    by (simp_all add: ab_range_def)
  with l s show ?thesis
    by (simp only:)
qed

end
